theory Spec2Isabelle
  imports Complex_Main "HOL-Library.Word" "HOL-Library.Log_Nat"
begin

section \<open>Strings\<close>

text \<open>
  A JavaScript string is a sequence of 16-bit code units. The literals of the source
  are all ASCII; \<open>ascii\<close> turns a HOL string literal into code units.
\<close>

type_synonym jschar = "16 word"
type_synonym jsstring = "jschar list"

definition ascii :: "string \<Rightarrow> jsstring" where
  "ascii s = map (\<lambda>c. of_nat (of_char c)) s"

text \<open>
  White space as \<open>String.prototype.trim\<close> sees it: the WhiteSpace and LineTerminator
  code points of ECMAScript (TAB, VT, FF, SP, NBSP, ZWNBSP, the Zs category, LF, CR, LS, PS).
\<close>

definition isWhiteSpace :: "jschar \<Rightarrow> bool" where
  "isWhiteSpace c \<longleftrightarrow>
     c \<in> {0x0009, 0x000A, 0x000B, 0x000C, 0x000D, 0x0020, 0x00A0, 0x1680,
          0x2000, 0x2001, 0x2002, 0x2003, 0x2004, 0x2005, 0x2006, 0x2007, 0x2008,
          0x2009, 0x200A, 0x2028, 0x2029, 0x202F, 0x205F, 0x3000, 0xFEFF}"

definition trim :: "jsstring \<Rightarrow> jsstring" where
  "trim s = rev (dropWhile isWhiteSpace (rev (dropWhile isWhiteSpace s)))"

text \<open>
  \<open>s.split(sep)\<close> for a one-character separator: the result is never empty, and the
  empty string gives the list of one empty string.
\<close>

fun split :: "jschar \<Rightarrow> jsstring \<Rightarrow> jsstring list" where
  "split sep [] = [[]]"
| "split sep (x # xs) =
     (if x = sep then [] # split sep xs
      else (case split sep xs of
              [] \<Rightarrow> [[x]]
            | f # fs \<Rightarrow> (x # f) # fs))"

definition comma :: jschar where "comma = 0x002C"
definition newline :: jschar where "newline = 0x000A"

section \<open>JSON values\<close>

text \<open>
  What \<open>JSON.parse\<close> produces and \<open>res.json\<close> sends. An object keeps its members
  in order; a property read takes the last member of that name, as \<open>JSON.parse\<close> does
  with duplicate keys.
\<close>

datatype json =
    JNull
  | JBool bool
  | JNum rat
  | JStr jsstring
  | JArr "json list"
  | JObj "(jsstring \<times> json) list"

text \<open>\<open>v.k\<close> for a value that is neither null nor undefined; \<open>None\<close> is \<open>undefined\<close>.\<close>

fun get_prop :: "json \<Rightarrow> string \<Rightarrow> json option" where
  "get_prop (JObj kvs) k = map_of (rev kvs) (ascii k)"
| "get_prop _ k = None"

fun truthy :: "json \<Rightarrow> bool" where
  "truthy JNull = False"
| "truthy (JBool b) = b"
| "truthy (JNum n) = (n \<noteq> 0)"
| "truthy (JStr s) = (s \<noteq> [])"
| "truthy (JArr _) = True"
| "truthy (JObj _) = True"

fun isString :: "json option \<Rightarrow> bool" where
  "isString (Some (JStr _)) = True"
| "isString _ = False"

fun isArray :: "json option \<Rightarrow> bool" where
  "isArray (Some (JArr _)) = True"
| "isArray _ = False"

section \<open>The schema: users and tasks\<close>

record user =
  id_user :: int
  username :: jsstring
  password :: jsstring
  createdAt_user :: "nat option"

text \<open>
  A row of the \<open>tasks\<close> table. Nullable columns are options; \<open>dueDate\<close> holds the
  string its Date was made from.
\<close>

record task =
  id_task :: int
  userId :: int
  title :: jsstring
  description :: "jsstring option"
  priority :: jsstring
  dueDate :: "jsstring option"
  completed :: "bool option"
  aiTags :: "jsstring list option"
  aiNotes :: "jsstring option"
  createdAt :: "nat option"

text \<open>
  The value \<open>insertTaskSchema.parse\<close> returns. An absent and a null \<open>description\<close> or
  \<open>dueDate\<close> are both \<open>None\<close>: both are falsy and both are stored as NULL.
\<close>

record insert_task =
  it_title :: jsstring
  it_description :: "jsstring option"
  it_priority :: jsstring
  it_dueDate :: "jsstring option"

datatype zod_issue = Issue (code: string) (path: "string list")

datatype exn =
    Error string
  | TypeError
  | SyntaxError
  | Rejection
  | ZodError "zod_issue list"

text \<open>
  One field of the schema: \<open>title\<close> is a required string, \<open>description\<close> a nullish
  string, \<open>priority\<close> one of the three enum members, \<open>dueDate\<close> nullish and otherwise
  a Date or a string (a JSON body holds no Date).
\<close>

definition parse_title :: "json \<Rightarrow> zod_issue list + jsstring" where
  "parse_title body =
     (case get_prop body ''title'' of
        Some (JStr s) \<Rightarrow> Inr s
      | _ \<Rightarrow> Inl [Issue ''invalid_type'' [''title'']])"

definition parse_description :: "json \<Rightarrow> zod_issue list + jsstring option" where
  "parse_description body =
     (case get_prop body ''description'' of
        None \<Rightarrow> Inr None
      | Some JNull \<Rightarrow> Inr None
      | Some (JStr s) \<Rightarrow> Inr (Some s)
      | _ \<Rightarrow> Inl [Issue ''invalid_type'' [''description'']])"

definition priorities :: "jsstring list" where
  "priorities = [ascii ''high'', ascii ''medium'', ascii ''low'']"

definition parse_priority :: "json \<Rightarrow> zod_issue list + jsstring" where
  "parse_priority body =
     (case get_prop body ''priority'' of
        Some (JStr s) \<Rightarrow>
          (if s \<in> set priorities then Inr s
           else Inl [Issue ''invalid_enum_value'' [''priority'']])
      | _ \<Rightarrow> Inl [Issue ''invalid_type'' [''priority'']])"

definition parse_dueDate :: "json \<Rightarrow> zod_issue list + jsstring option" where
  "parse_dueDate body =
     (case get_prop body ''dueDate'' of
        None \<Rightarrow> Inr None
      | Some JNull \<Rightarrow> Inr None
      | Some (JStr s) \<Rightarrow> Inr (Some s)
      | _ \<Rightarrow> Inl [Issue ''invalid_union'' [''dueDate'']])"

fun issues :: "zod_issue list + 'a \<Rightarrow> zod_issue list" where
  "issues (Inl iss) = iss"
| "issues (Inr _) = []"

text \<open>
  \<open>insertTaskSchema.parse(req.body)\<close>: a body that is no object is one issue at the root;
  otherwise every field is checked and all issues are collected, unknown keys are dropped.
\<close>

definition insertTaskSchema_parse :: "json \<Rightarrow> exn + insert_task" where
  "insertTaskSchema_parse body =
     (case body of
        JObj _ \<Rightarrow>
          (case (parse_title body, parse_description body, parse_priority body, parse_dueDate body) of
             (Inr t, Inr d, Inr p, Inr dd) \<Rightarrow>
               Inr \<lparr>it_title = t, it_description = d, it_priority = p, it_dueDate = dd\<rparr>
           | (rt, rd, rp, rdd) \<Rightarrow>
               Inl (ZodError (issues rt @ issues rd @ issues rp @ issues rdd)))
      | _ \<Rightarrow> Inl (ZodError [Issue ''invalid_type'' []]))"

section \<open>The task store\<close>

text \<open>
  The table in insertion order, the next serial identifier and the database clock.
\<close>

record db =
  rows :: "task list"
  next_id :: int
  clock :: nat

record new_task =
  nt_title :: jsstring
  nt_description :: "jsstring option"
  nt_priority :: jsstring
  nt_dueDate :: "jsstring option"
  nt_userId :: int
  nt_aiTags :: "jsstring list"

text \<open>\<open>Partial<Task>\<close> as the update takes it: \<open>None\<close> leaves the column alone.\<close>

record task_patch =
  p_title :: "jsstring option"
  p_description :: "jsstring option option"
  p_priority :: "jsstring option"
  p_dueDate :: "jsstring option option"
  p_completed :: "bool option option"
  p_aiTags :: "jsstring list option option"
  p_aiNotes :: "jsstring option option"

text \<open>
  \<open>server/storage.ts\<close> is not among the sources; its four operations are modelled from
  the specification of the task store. The identifier the routes pass to the update and the
  delete is \<open>parseInt(req.params.id)\<close>; \<open>None\<close> stands for NaN, which matches no row.
\<close>

text \<open>
  Modelled from the spec: \<open>storage.getTasksByUserId\<close>, missing from the sources.
  List-by-user: the rows of that user, in insertion order.
\<close>

definition getTasksByUserId :: "int \<Rightarrow> db \<Rightarrow> task list" where
  "getTasksByUserId uid d = filter (\<lambda>t. userId t = uid) (rows d)"

text \<open>
  Modelled from the spec: \<open>storage.createTask\<close>, missing from the sources. Create assigns
  the identifier and the timestamp and accepts the pre-computed AI tags; the completion flag
  defaults to false.
\<close>

definition createTask :: "new_task \<Rightarrow> db \<Rightarrow> task \<times> db" where
  "createTask n d =
     (let t = \<lparr>id_task = next_id d, userId = nt_userId n, title = nt_title n,
                description = nt_description n, priority = nt_priority n,
                dueDate = nt_dueDate n, completed = Some False,
                aiTags = Some (nt_aiTags n), aiNotes = None, createdAt = Some (clock d)\<rparr>
      in (t, d\<lparr>rows := rows d @ [t], next_id := next_id d + 1\<rparr>))"

text \<open>
  Modelled from the spec: \<open>storage.updateTask\<close>, missing from the sources. Partial update
  by identifier; a not-found signal (\<open>None\<close>) if no row has the identifier.
\<close>

definition apply_patch :: "task_patch \<Rightarrow> task \<Rightarrow> task" where
  "apply_patch p t =
     t\<lparr>title := (case p_title p of None \<Rightarrow> title t | Some v \<Rightarrow> v),
       description := (case p_description p of None \<Rightarrow> description t | Some v \<Rightarrow> v),
       priority := (case p_priority p of None \<Rightarrow> priority t | Some v \<Rightarrow> v),
       dueDate := (case p_dueDate p of None \<Rightarrow> dueDate t | Some v \<Rightarrow> v),
       completed := (case p_completed p of None \<Rightarrow> completed t | Some v \<Rightarrow> v),
       aiTags := (case p_aiTags p of None \<Rightarrow> aiTags t | Some v \<Rightarrow> v),
       aiNotes := (case p_aiNotes p of None \<Rightarrow> aiNotes t | Some v \<Rightarrow> v)\<rparr>"

definition updateTask :: "int option \<Rightarrow> task_patch \<Rightarrow> db \<Rightarrow> task option \<times> db" where
  "updateTask i p d =
     (case i of
        None \<Rightarrow> (None, d)
      | Some k \<Rightarrow>
          (case find (\<lambda>t. id_task t = k) (rows d) of
             None \<Rightarrow> (None, d)
           | Some t \<Rightarrow>
               (Some (apply_patch p t),
                d\<lparr>rows := map (\<lambda>r. if id_task r = k then apply_patch p r else r) (rows d)\<rparr>)))"

text \<open>
  Modelled from the spec: \<open>storage.deleteTask\<close>, missing from the sources. Delete by
  identifier; no error if the row is already absent.
\<close>

definition deleteTask :: "int option \<Rightarrow> db \<Rightarrow> db" where
  "deleteTask i d =
     (case i of
        None \<Rightarrow> d
      | Some k \<Rightarrow> d\<lparr>rows := filter (\<lambda>r. id_task r \<noteq> k) (rows d)\<rparr>)"

section \<open>The external model call\<close>

text \<open>
  \<open>this.model.invoke\<close> either rejects or resolves to a message whose content the
  source turns into text (\<open>typeof response.content === 'string' ? ... : JSON.stringify(...)\<close>);
  \<open>Content\<close> carries that text. The prompt records what each operation sends.
\<close>

datatype llm_reply = Rejected | Content jsstring

datatype prompt =
    ReportPrompt user "task list" json
  | InsightsPrompt "task list"
  | TagsPrompt jsstring jsstring

text \<open>
  The service as the routes see it: the model call, and \<open>JSON.parse\<close> with \<open>None\<close>
  for a SyntaxError.
\<close>

record ai_env =
  invoke :: "prompt \<Rightarrow> llm_reply"
  JSON_parse :: "jsstring \<Rightarrow> json option"

section \<open>Numbers\<close>

text \<open>
  A JavaScript number is an IEEE-754 binary64. \<open>binary64\<close> rounds a rational to the
  nearest value with a 53-bit significand, ties to even; the exponent is unbounded, which
  is exact here: the operands are array lengths (below \<open>2^32\<close>) and the constant 100,
  so nothing underflows or overflows.
\<close>

definition roundTiesToEven :: "rat \<Rightarrow> int" where
  "roundTiesToEven x =
     (let f = \<lfloor>x\<rfloor>; r = x - of_int f
      in if r < 1 / 2 then f
         else if 1 / 2 < r then f + 1
         else if even f then f else f + 1)"

text \<open>The exponent \<open>e\<close> of a positive rational: \<open>2^e \<le> x < 2^(e + 1)\<close>.\<close>

definition exponent :: "rat \<Rightarrow> int" where
  "exponent x =
     (let (p, q) = quotient_of x; e = bitlen p - bitlen q
      in if 2 powi e \<le> x then e else e - 1)"

definition binary64 :: "rat \<Rightarrow> rat" where
  "binary64 x =
     (if x = 0 then 0
      else (let u = 2 powi (exponent \<bar>x\<bar> - 52)
            in of_int (roundTiesToEven (x / u)) * u))"

definition js_div :: "rat \<Rightarrow> rat \<Rightarrow> rat" where
  "js_div a b = binary64 (a / b)"

definition js_mul :: "rat \<Rightarrow> rat \<Rightarrow> rat" where
  "js_mul a b = binary64 (a * b)"

text \<open>\<open>Math.round\<close>: the nearest integer, a tie going up.\<close>

definition Math_round :: "rat \<Rightarrow> int" where
  "Math_round x = \<lfloor>x + 1 / 2\<rfloor>"

text \<open>The decimal digits of a natural number, as a template literal prints it.\<close>

fun digits :: "nat \<Rightarrow> jsstring" where
  "digits n = (if n < 10 then [of_nat (48 + n)] else digits (n div 10) @ [of_nat (48 + n mod 10)])"

definition toString :: "int \<Rightarrow> jsstring" where
  "toString i = (if i < 0 then ascii ''-'' @ digits (nat (- i)) else digits (nat i))"

section \<open>Locating the JSON text in a reply\<close>

text \<open>The first occurrence of \<open>needle\<close>: what is before it and what is after it.\<close>

fun search :: "jsstring \<Rightarrow> jsstring \<Rightarrow> (jsstring \<times> jsstring) option" where
  "search needle [] = (if needle = [] then Some ([], []) else None)"
| "search needle (x # xs) =
     (if take (length needle) (x # xs) = needle
      then Some ([], drop (length needle) (x # xs))
      else map_option (\<lambda>(before, after). (x # before, after)) (search needle xs))"

definition backtick :: jschar where "backtick = 0x0060"
definition lbrace :: jschar where "lbrace = 0x007B"
definition rbrace :: jschar where "rbrace = 0x007D"

definition fence :: jsstring where
  "fence = [backtick, backtick, backtick]"

text \<open>
  A match is \<open>(m[0], m[1])\<close>, with \<open>None\<close> for a group the pattern does not have.
  The fenced pattern is the opening fence with its \<open>json\<close> tag and newline, the shortest
  text up to a newline and a closing fence; the inline pattern the shortest text between
  two backticks; the last one the first opening brace up to the last closing brace.
\<close>

type_synonym regex_match = "jsstring \<times> jsstring option"

definition match_fenced :: "jsstring \<Rightarrow> regex_match option" where
  "match_fenced content =
     (let opener = fence @ ascii ''json'' @ [newline]; closer = newline # fence in
      case search opener content of
        None \<Rightarrow> None
      | Some (_, rest) \<Rightarrow>
          (case search closer rest of
             None \<Rightarrow> None
           | Some (g, _) \<Rightarrow> Some (opener @ g @ closer, Some g)))"

definition match_inline :: "jsstring \<Rightarrow> regex_match option" where
  "match_inline content =
     (case search [backtick] content of
        None \<Rightarrow> None
      | Some (_, rest) \<Rightarrow>
          (case search [backtick] rest of
             None \<Rightarrow> None
           | Some (g, _) \<Rightarrow> Some (backtick # g @ [backtick], Some g)))"

definition match_braces :: "jsstring \<Rightarrow> regex_match option" where
  "match_braces content =
     (case dropWhile (\<lambda>c. c \<noteq> lbrace) content of
        [] \<Rightarrow> None
      | b # rest \<Rightarrow>
          (if rbrace \<in> set rest
           then Some (b # rev (dropWhile (\<lambda>c. c \<noteq> rbrace) (rev rest)), None)
           else None))"

text \<open>
  \<open>content.match(fenced) || content.match(inline) || content.match(braces)\<close>, the
  expression both \<open>generateReport\<close> and \<open>generateTaskInsights\<close> use.
\<close>

definition jsonMatch :: "jsstring \<Rightarrow> regex_match option" where
  "jsonMatch content =
     (case match_fenced content of
        Some m \<Rightarrow> Some m
      | None \<Rightarrow>
          (case match_inline content of
             Some m \<Rightarrow> Some m
           | None \<Rightarrow> match_braces content))"

text \<open>\<open>jsonMatch[1] || jsonMatch[0]\<close>: an empty group is falsy.\<close>

fun jsonString :: "regex_match \<Rightarrow> jsstring" where
  "jsonString (whole, None) = whole"
| "jsonString (whole, Some g) = (if g = [] then whole else g)"

section \<open>Exceptions\<close>

definition catch :: "exn + 'a \<Rightarrow> (exn \<Rightarrow> exn + 'a) \<Rightarrow> exn + 'a" where
  "catch body handler = (case body of Inl e \<Rightarrow> handler e | Inr v \<Rightarrow> Inr v)"

section \<open>GroqService: reports\<close>

definition obj :: "(string \<times> json) list \<Rightarrow> json" where
  "obj kvs = JObj (map (\<lambda>(k, v). (ascii k, v)) kvs)"

definition str :: "string \<Rightarrow> json" where
  "str s = JStr (ascii s)"

text \<open>The percentage both fallbacks compute.\<close>

definition completionRate :: "task list \<Rightarrow> int" where
  "completionRate tasks =
     (let completedTasks = filter (\<lambda>t. completed t = Some True) tasks in
      if length tasks > 0
      then Math_round (js_mul (js_div (of_nat (length completedTasks)) (of_nat (length tasks))) 100)
      else 0)"

definition getFallbackReport :: "task list \<Rightarrow> json" where
  "getFallbackReport tasks =
     (let completedTasks = filter (\<lambda>t. completed t = Some True) tasks;
          rate = completionRate tasks
      in obj
        [(''executiveSummary'', obj
            [(''summary'', str ''Task Management Overview (Generated from fallback)''),
             (''metrics'', JArr
                [JStr (ascii ''Total Tasks: '' @ toString (int (length tasks))),
                 JStr (ascii ''Completed Tasks: '' @ toString (int (length completedTasks))),
                 JStr (ascii ''Completion Rate: '' @ toString rate @ ascii ''%''),
                 JStr (ascii ''High Priority Tasks: '' @
                       toString (int (length (filter (\<lambda>t. priority t = ascii ''high'') tasks))))])]),
         (''taskAnalysis'', str
            ''A detailed task analysis could not be generated at this time. Please try again later.''),
         (''productivityMetrics'', JStr
            (ascii ''Current completion rate is '' @ toString rate @
             ascii ''%. Task metrics are being calculated.'')),
         (''workStyleAnalysis'', str
            ''Work style analysis is temporarily unavailable. Please try again later.''),
         (''recommendations'', JArr
            [str ''Consider reviewing and updating task priorities'',
             str ''Regular task list maintenance is recommended'',
             str ''Set realistic deadlines for better task management''])])"

text \<open>
  \<open>typeof v === 'object'\<close> holds of null, arrays and objects; reading a property of
  null throws a TypeError, which \<open>validateReportStructure\<close> catches and turns into false.
\<close>

fun typeof_object :: "json option \<Rightarrow> bool" where
  "typeof_object (Some JNull) = True"
| "typeof_object (Some (JArr _)) = True"
| "typeof_object (Some (JObj _)) = True"
| "typeof_object _ = False"

definition validateReportStructure_body :: "json \<Rightarrow> exn + bool" where
  "validateReportStructure_body report =
     (if \<not> truthy report then Inr False
      else if \<not> typeof_object (get_prop report ''executiveSummary'') then Inr False
      else (case get_prop report ''executiveSummary'' of
              Some JNull \<Rightarrow> Inl TypeError
            | Some es \<Rightarrow>
                Inr (isString (get_prop es ''summary'') \<and>
                     isArray (get_prop es ''metrics'') \<and>
                     isString (get_prop report ''taskAnalysis'') \<and>
                     isString (get_prop report ''productivityMetrics'') \<and>
                     isString (get_prop report ''workStyleAnalysis'') \<and>
                     isArray (get_prop report ''recommendations''))
            | None \<Rightarrow> Inr False))"

definition validateReportStructure :: "json \<Rightarrow> bool" where
  "validateReportStructure report =
     (case validateReportStructure_body report of Inl _ \<Rightarrow> False | Inr b \<Rightarrow> b)"

text \<open>The inner \<open>try\<close> of \<open>generateReport\<close>, whose \<open>catch\<close> rethrows.\<close>

definition parseReport :: "ai_env \<Rightarrow> jsstring \<Rightarrow> exn + json" where
  "parseReport env content =
     catch
       (case jsonMatch content of
          None \<Rightarrow> Inl (Error ''Invalid AI response format'')
        | Some m \<Rightarrow>
            (case JSON_parse env (trim (jsonString m)) of
               None \<Rightarrow> Inl SyntaxError
             | Some parsedResponse \<Rightarrow>
                 (if \<not> validateReportStructure parsedResponse
                  then Inl (Error ''Invalid report structure received from AI'')
                  else Inr parsedResponse)))
       (\<lambda>parseError. Inl (Error ''Failed to parse AI response''))"

text \<open>
  Each operation returns its result and the calls it made to the model.
  \<open>generateReport_try\<close> is the outer \<open>try\<close> block, whose \<open>catch\<close> returns the fallback.
\<close>

definition generateReport_try ::
  "ai_env \<Rightarrow> task list \<Rightarrow> json \<Rightarrow> user \<Rightarrow> (exn + json) \<times> prompt list" where
  "generateReport_try env tasks insights u =
     (if length tasks = 0 then (Inr (getFallbackReport tasks), [])
      else (let p = ReportPrompt u tasks insights in
            (case invoke env p of
               Rejected \<Rightarrow> Inl Rejection
             | Content content \<Rightarrow> parseReport env content,
             [p])))"

definition generateReport ::
  "ai_env \<Rightarrow> task list \<Rightarrow> json \<Rightarrow> user \<Rightarrow> (exn + json) \<times> prompt list" where
  "generateReport env tasks insights u =
     (case generateReport_try env tasks insights u of
        (r, calls) \<Rightarrow> (catch r (\<lambda>error. Inr (getFallbackReport tasks)), calls))"

section \<open>GroqService: insights\<close>

text \<open>
  \<open>taskGroups.every(group => typeof group.name === 'string' && Array.isArray(group.tasks))\<close>:
  it stops at the first group that fails, and a null group throws.
\<close>

fun every_group :: "json list \<Rightarrow> exn + bool" where
  "every_group [] = Inr True"
| "every_group (g # gs) =
     (if g = JNull then Inl TypeError
      else if isString (get_prop g ''name'') \<and> isArray (get_prop g ''tasks'')
      then every_group gs
      else Inr False)"

definition validateInsightsStructure :: "json \<Rightarrow> exn + bool" where
  "validateInsightsStructure insights =
     (if \<not> truthy insights then Inr False
      else (case get_prop insights ''taskGroups'' of
              Some (JArr gs) \<Rightarrow>
                (case every_group gs of
                   Inl e \<Rightarrow> Inl e
                 | Inr ok \<Rightarrow>
                     Inr (ok \<and> isArray (get_prop insights ''recommendations'') \<and>
                          isString (get_prop insights ''completionRate'')))
            | _ \<Rightarrow> Inr False))"

definition getFallbackInsights :: "task list \<Rightarrow> json" where
  "getFallbackInsights tasks =
     obj [(''taskGroups'', JArr
             [obj [(''name'', str ''All Tasks''),
                   (''tasks'', JArr (map (\<lambda>t. JStr (title t)) tasks))]]),
          (''recommendations'', JArr
             [str ''Focus on completing high-priority tasks first'',
              str ''Review and update task priorities regularly'']),
          (''completionRate'', JStr (toString (completionRate tasks) @ ascii ''%''))]"

definition emptyInsights :: json where
  "emptyInsights =
     obj [(''taskGroups'', JArr []),
          (''recommendations'', JArr [str ''Start by adding some tasks to get AI-powered insights'']),
          (''completionRate'', str ''0%'')]"

text \<open>The inner \<open>try\<close> of \<open>generateTaskInsights\<close>, whose \<open>catch\<close> returns the fallback.\<close>

definition parseInsights :: "ai_env \<Rightarrow> task list \<Rightarrow> jsstring \<Rightarrow> exn + json" where
  "parseInsights env tasks content =
     catch
       (case jsonMatch content of
          None \<Rightarrow> Inl (Error ''No JSON found in response'')
        | Some m \<Rightarrow>
            (case JSON_parse env (jsonString m) of
               None \<Rightarrow> Inl SyntaxError
             | Some parsedResponse \<Rightarrow>
                 (case validateInsightsStructure parsedResponse of
                    Inl e \<Rightarrow> Inl e
                  | Inr ok \<Rightarrow>
                      (if \<not> ok then Inl (Error ''Invalid insights structure'')
                       else Inr parsedResponse))))
       (\<lambda>parseError. Inr (getFallbackInsights tasks))"

definition generateTaskInsights ::
  "ai_env \<Rightarrow> task list \<Rightarrow> (exn + json) \<times> prompt list" where
  "generateTaskInsights env tasks =
     (if length tasks = 0 then (Inr emptyInsights, [])
      else (let p = InsightsPrompt tasks in
            (catch
               (case invoke env p of
                  Rejected \<Rightarrow> Inl Rejection
                | Content content \<Rightarrow> parseInsights env tasks content)
               (\<lambda>error. Inr (getFallbackInsights tasks)),
             [p])))"

section \<open>GroqService: tags\<close>

definition generateTaskTags ::
  "ai_env \<Rightarrow> jsstring \<Rightarrow> jsstring \<Rightarrow> (exn + jsstring list) \<times> prompt list" where
  "generateTaskTags env the_title the_description =
     (let p = TagsPrompt the_title the_description in
      (catch
         (case invoke env p of
            Rejected \<Rightarrow> Inl Rejection
          | Content content \<Rightarrow>
              (let tags = take 3 (filter (\<lambda>tag. length tag > 0 \<and> newline \<notin> set tag)
                                   (map trim (split comma content)))
               in Inr (if length tags > 0 then tags else [ascii ''task''])))
         (\<lambda>error. Inr [ascii ''task'']),
       [p]))"

section \<open>The routes\<close>

text \<open>
  A handler ends in a response or in an exception it does not catch. \<open>req.user\<close> is
  \<open>None\<close> when \<open>req.isAuthenticated()\<close> is false.
\<close>

datatype body = Tasks "task list" | OneTask task | Value json | Failure exn

datatype response = SendStatus nat | Json nat body

type_synonym outcome = "exn + response"

definition get_api_tasks :: "user option \<Rightarrow> db \<Rightarrow> outcome \<times> db" where
  "get_api_tasks req_user d =
     (case req_user of
        None \<Rightarrow> (Inr (SendStatus 401), d)
      | Some u \<Rightarrow> (Inr (Json 200 (Tasks (getTasksByUserId (id_user u) d))), d))"

definition post_api_tasks :: "ai_env \<Rightarrow> user option \<Rightarrow> json \<Rightarrow> db \<Rightarrow> outcome \<times> db" where
  "post_api_tasks env req_user req_body d =
     (case req_user of
        None \<Rightarrow> (Inr (SendStatus 401), d)
      | Some u \<Rightarrow>
          (case insertTaskSchema_parse req_body of
             Inl e \<Rightarrow> (Inl e, d)
           | Inr validatedData \<Rightarrow>
               (case fst (generateTaskTags env (it_title validatedData)
                            (case it_description validatedData of None \<Rightarrow> [] | Some s \<Rightarrow> s)) of
                  Inl e \<Rightarrow> (Inl e, d)
                | Inr tags \<Rightarrow>
                    (let (t, d') = createTask
                           \<lparr>nt_title = it_title validatedData,
                            nt_description = it_description validatedData,
                            nt_priority = it_priority validatedData,
                            nt_dueDate = it_dueDate validatedData,
                            nt_userId = id_user u,
                            nt_aiTags = tags\<rparr> d
                     in (Inr (Json 201 (OneTask t)), d')))))"

definition patch_api_tasks_id ::
  "user option \<Rightarrow> int option \<Rightarrow> task_patch \<Rightarrow> db \<Rightarrow> outcome \<times> db" where
  "patch_api_tasks_id req_user params_id req_body d =
     (case req_user of
        None \<Rightarrow> (Inr (SendStatus 401), d)
      | Some u \<Rightarrow>
          (case updateTask params_id req_body d of
             (None, d') \<Rightarrow> (Inr (SendStatus 404), d')
           | (Some t, d') \<Rightarrow> (Inr (Json 200 (OneTask t)), d')))"

definition delete_api_tasks_id :: "user option \<Rightarrow> int option \<Rightarrow> db \<Rightarrow> outcome \<times> db" where
  "delete_api_tasks_id req_user params_id d =
     (case req_user of
        None \<Rightarrow> (Inr (SendStatus 401), d)
      | Some u \<Rightarrow> (Inr (SendStatus 204), deleteTask params_id d))"



definition noTasksMessage :: json where
  "noTasksMessage =
     obj [(''message'', str ''No tasks found. Please add some tasks before generating a report.'')]"

text \<open>The \<open>try\<close> block of the report route; its \<open>catch\<close> answers 500.\<close>

definition report_try :: "ai_env \<Rightarrow> user \<Rightarrow> db \<Rightarrow> exn + response" where
  "report_try env u d =
     (let tasks = getTasksByUserId (id_user u) d in
      if length tasks = 0 then Inr (Json 400 (Value noTasksMessage))
      else (case fst (generateTaskInsights env tasks) of
              Inl e \<Rightarrow> Inl e
            | Inr insights \<Rightarrow>
                (case fst (generateReport env tasks insights u) of
                   Inl e \<Rightarrow> Inl e
                 | Inr report \<Rightarrow>
                     (if \<not> truthy report
                      then Inl (Error ''Failed to generate report: No report data received'')
                      else Inr (Json 200 (Value report))))))"

definition get_api_report :: "ai_env \<Rightarrow> user option \<Rightarrow> db \<Rightarrow> outcome \<times> db" where
  "get_api_report env req_user d =
     (case req_user of
        None \<Rightarrow> (Inr (SendStatus 401), d)
      | Some u \<Rightarrow>
          (catch (report_try env u d) (\<lambda>error. Inr (Json 500 (Failure error))), d))"

section \<open>Contracts and payloads in the words of the specification\<close>

text \<open>
  The structural contract of the two artifacts, in the words of the specification.
  Insights: \<open>taskGroups\<close> an array of objects with a string \<open>name\<close> and a string array
  \<open>tasks\<close>, \<open>recommendations\<close> a string array, \<open>completionRate\<close> a string.
  Report: \<open>executiveSummary\<close> an object with a string \<open>summary\<close> and an array
  \<open>metrics\<close>, the three analyses strings, \<open>recommendations\<close> an array.
\<close>

fun isObject :: "json option \<Rightarrow> bool" where
  "isObject (Some (JObj _)) = True"
| "isObject _ = False"

fun isStringArray :: "json option \<Rightarrow> bool" where
  "isStringArray (Some (JArr xs)) = list_all (\<lambda>x. isString (Some x)) xs"
| "isStringArray _ = False"

definition isTaskGroup :: "json \<Rightarrow> bool" where
  "isTaskGroup g \<longleftrightarrow>
     isObject (Some g) \<and> isString (get_prop g ''name'') \<and> isStringArray (get_prop g ''tasks'')"

fun isTaskGroupArray :: "json option \<Rightarrow> bool" where
  "isTaskGroupArray (Some (JArr gs)) = list_all isTaskGroup gs"
| "isTaskGroupArray _ = False"

definition insights_contract :: "json \<Rightarrow> bool" where
  "insights_contract j \<longleftrightarrow>
     isObject (Some j) \<and>
     isTaskGroupArray (get_prop j ''taskGroups'') \<and>
     isStringArray (get_prop j ''recommendations'') \<and>
     isString (get_prop j ''completionRate'')"

definition summary_contract :: "json option \<Rightarrow> bool" where
  "summary_contract es \<longleftrightarrow>
     (case es of
        Some (JObj kvs) \<Rightarrow>
          isString (get_prop (JObj kvs) ''summary'') \<and> isArray (get_prop (JObj kvs) ''metrics'')
      | _ \<Rightarrow> False)"

definition report_contract :: "json \<Rightarrow> bool" where
  "report_contract j \<longleftrightarrow>
     isObject (Some j) \<and>
     summary_contract (get_prop j ''executiveSummary'') \<and>
     isString (get_prop j ''taskAnalysis'') \<and>
     isString (get_prop j ''productivityMetrics'') \<and>
     isString (get_prop j ''workStyleAnalysis'') \<and>
     isArray (get_prop j ''recommendations'')"

text \<open>
  The JSON value that can be extracted and validated from a reply, if there is one:
  a pattern matches, \<open>JSON.parse\<close> accepts the matched text, the validator says yes.
\<close>

definition extractInsights :: "ai_env \<Rightarrow> jsstring \<Rightarrow> json option" where
  "extractInsights env content =
     (case jsonMatch content of
        None \<Rightarrow> None
      | Some m \<Rightarrow>
          (case JSON_parse env (jsonString m) of
             None \<Rightarrow> None
           | Some j \<Rightarrow> if validateInsightsStructure j = Inr True then Some j else None))"

definition extractReport :: "ai_env \<Rightarrow> jsstring \<Rightarrow> json option" where
  "extractReport env content =
     (case jsonMatch content of
        None \<Rightarrow> None
      | Some m \<Rightarrow>
          (case JSON_parse env (trim (jsonString m)) of
             None \<Rightarrow> None
           | Some j \<Rightarrow> if validateReportStructure j then Some j else None))"

text \<open>
  A well-formed task payload, in the words of the schema: an object with a string
  \<open>title\<close>, a \<open>priority\<close> among high, medium and low, and a \<open>description\<close> and a
  \<open>dueDate\<close> that are each absent, null or a string.
\<close>

fun nullishString :: "json option \<Rightarrow> bool" where
  "nullishString None = True"
| "nullishString (Some JNull) = True"
| "nullishString (Some (JStr _)) = True"
| "nullishString _ = False"

fun isPriority :: "json option \<Rightarrow> bool" where
  "isPriority (Some (JStr s)) = (s \<in> set priorities)"
| "isPriority _ = False"

definition well_formed :: "json \<Rightarrow> bool" where
  "well_formed req_body \<longleftrightarrow>
     isObject (Some req_body) \<and>
     isString (get_prop req_body ''title'') \<and>
     nullishString (get_prop req_body ''description'') \<and>
     isPriority (get_prop req_body ''priority'') \<and>
     nullishString (get_prop req_body ''dueDate'')"

text \<open>The fields an issue of the task schema can point at, or the root.\<close>

definition schema_paths :: "string list list" where
  "schema_paths = [[], [''title''], [''description''], [''priority''], [''dueDate'']]"

section \<open>Sample data\<close>

definition alice :: user where
  "alice = \<lparr>id_user = 1, username = ascii ''alice'', password = ascii ''x'', createdAt_user = None\<rparr>"

definition bob :: user where
  "bob = \<lparr>id_user = 2, username = ascii ''bob'', password = ascii ''y'', createdAt_user = None\<rparr>"

definition env_down :: ai_env where
  "env_down = \<lparr>invoke = (\<lambda>p. Rejected), JSON_parse = (\<lambda>s. None)\<rparr>"

definition env_tags :: ai_env where
  "env_tags = \<lparr>invoke = (\<lambda>p. Content (ascii ''work, urgent ,, home, extra'')),
               JSON_parse = (\<lambda>s. None)\<rparr>"

definition env_blank :: ai_env where
  "env_blank = \<lparr>invoke = (\<lambda>p. Content (ascii '' , ,'')), JSON_parse = (\<lambda>s. None)\<rparr>"

definition db_empty :: db where
  "db_empty = \<lparr>rows = [], next_id = 1, clock = 0\<rparr>"

definition body_report :: json where
  "body_report = obj [(''title'', str ''Write report''), (''priority'', str ''high''),
                      (''description'', str ''quarterly numbers'')]"

definition env_prose :: ai_env where
  "env_prose = \<lparr>invoke = (\<lambda>p. Content (ascii ''Sorry, I cannot help with that.'')),
                JSON_parse = (\<lambda>s. None)\<rparr>"

definition body_untitled :: json where
  "body_untitled = obj [(''priority'', str ''high'')]"

definition body_urgent :: json where
  "body_urgent = obj [(''title'', str ''Write report''), (''priority'', str ''urgent'')]"

definition bobs_task :: task where
  "bobs_task = \<lparr>id_task = 7, userId = 2, title = ascii ''Pay rent'', description = None,
                priority = ascii ''high'', dueDate = None, completed = Some False,
                aiTags = Some [ascii ''home''], aiNotes = None, createdAt = Some 0\<rparr>"

definition bobs_done :: task where
  "bobs_done = \<lparr>id_task = 8, userId = 2, title = ascii ''Call bank'', description = None,
                priority = ascii ''low'', dueDate = None, completed = Some True,
                aiTags = Some [ascii ''money''], aiNotes = None, createdAt = Some 1\<rparr>"

definition bobs_task_completed :: task where
  "bobs_task_completed =
     \<lparr>id_task = 7, userId = 2, title = ascii ''Pay rent'', description = None,
      priority = ascii ''high'', dueDate = None, completed = Some True,
      aiTags = Some [ascii ''home''], aiNotes = None, createdAt = Some 0\<rparr>"

definition bobs_task_urgent :: task where
  "bobs_task_urgent =
     \<lparr>id_task = 7, userId = 2, title = ascii ''Pay rent'', description = None,
      priority = ascii ''urgent'', dueDate = None, completed = Some False,
      aiTags = Some [ascii ''home''], aiNotes = None, createdAt = Some 0\<rparr>"

definition db_bob :: db where
  "db_bob = \<lparr>rows = [bobs_task], next_id = 8, clock = 5\<rparr>"

definition db_two :: db where
  "db_two = \<lparr>rows = [bobs_task, bobs_done], next_id = 9, clock = 5\<rparr>"

definition no_patch :: task_patch where
  "no_patch = \<lparr>p_title = None, p_description = None, p_priority = None, p_dueDate = None,
               p_completed = None, p_aiTags = None, p_aiNotes = None\<rparr>"

definition patch_done :: task_patch where
  "patch_done = no_patch\<lparr>p_completed := Some (Some True)\<rparr>"

definition patch_urgent :: task_patch where
  "patch_urgent = no_patch\<lparr>p_priority := Some (ascii ''urgent'')\<rparr>"

definition created_task :: task where
  "created_task = \<lparr>id_task = 8, userId = 1, title = ascii ''Write report'',
                   description = Some (ascii ''quarterly numbers''), priority = ascii ''high'',
                   dueDate = None, completed = Some False,
                   aiTags = Some [ascii ''work'', ascii ''urgent'', ascii ''home''],
                   aiNotes = None, createdAt = Some 5\<rparr>"

text \<open>Forty tasks, twenty-three of them completed.\<close>

definition forty_tasks :: "task list" where
  "forty_tasks = replicate 23 bobs_done @ replicate 17 bobs_task"

section \<open>Evaluation\<close>

lemmas string_defs = ascii_def trim_def isWhiteSpace_def comma_def newline_def

lemmas schema_defs = insertTaskSchema_parse_def parse_title_def parse_description_def
  parse_priority_def parse_dueDate_def priorities_def obj_def str_def

lemmas sample_defs = alice_def bob_def env_down_def env_tags_def env_blank_def db_empty_def
  body_report_def env_prose_def body_untitled_def body_urgent_def bobs_task_def bobs_done_def
  db_bob_def db_two_def no_patch_def patch_done_def patch_urgent_def created_task_def
  bobs_task_completed_def bobs_task_urgent_def

section \<open>Strings: basic facts\<close>

lemma split_nonempty: "split sep s \<noteq> []"
  by (induction s) (auto split: list.splits)

lemma dropWhile_fix: "xs = [] \<or> \<not> P (hd xs) \<Longrightarrow> dropWhile P xs = xs"
  by (cases xs) auto

lemma trim_idem: "trim (trim s) = trim s"
proof -
  define a where "a = dropWhile isWhiteSpace s"
  define b where "b = dropWhile isWhiteSpace (rev a)"
  have t: "trim s = rev b" by (simp add: trim_def a_def b_def)
  have hb: "b = [] \<or> \<not> isWhiteSpace (hd b)"
    unfolding b_def using hd_dropWhile[of isWhiteSpace "rev a"] by blast
  have ha: "a = [] \<or> \<not> isWhiteSpace (hd a)"
    unfolding a_def using hd_dropWhile[of isWhiteSpace s] by blast
  have "rev a = takeWhile isWhiteSpace (rev a) @ b"
    unfolding b_def by simp
  then have a_eq: "a = rev b @ rev (takeWhile isWhiteSpace (rev a))"
    by (metis rev_append rev_rev_ident)
  have hrb: "rev b = [] \<or> \<not> isWhiteSpace (hd (rev b))"
  proof (cases "b = []")
    case True then show ?thesis by simp
  next
    case False
    then have "hd a = hd (rev b)" using a_eq by (metis hd_append2 rev_is_Nil_conv)
    moreover have "a \<noteq> []" using False a_eq by auto
    ultimately show ?thesis using ha by auto
  qed
  have "trim (rev b) = rev (dropWhile isWhiteSpace (rev (rev b)))"
    unfolding trim_def using dropWhile_fix[of "rev b" isWhiteSpace] hrb by simp
  also have "\<dots> = rev b" using dropWhile_fix[of b isWhiteSpace] hb by simp
  finally show ?thesis using t by simp
qed

lemma task_literal:
  "trim (ascii ''task'') = ascii ''task'' \<and> ascii ''task'' \<noteq> [] \<and> newline \<notin> set (ascii ''task'')"
  by (simp add: trim_def ascii_def isWhiteSpace_def newline_def)

section \<open>The task schema\<close>

lemma parse_title_cases:
  "parse_title b = (case get_prop b ''title'' of
                      Some (JStr s) \<Rightarrow> Inr s
                    | _ \<Rightarrow> Inl [Issue ''invalid_type'' [''title'']])"
  by (simp add: parse_title_def)

lemma parse_title_isString:
  "isString (get_prop b ''title'') \<Longrightarrow> get_prop b ''title'' = Some (JStr s) \<longleftrightarrow> parse_title b = Inr s"
  "\<not> isString (get_prop b ''title'') \<Longrightarrow> parse_title b = Inl [Issue ''invalid_type'' [''title'']]"
  by (cases "get_prop b ''title''" rule: isString.cases; simp add: parse_title_def)+

lemma parse_description_nullish:
  "nullishString (get_prop b ''description'') \<Longrightarrow>
     parse_description b =
       Inr (case get_prop b ''description'' of Some (JStr s) \<Rightarrow> Some s | _ \<Rightarrow> None)"
  "\<not> nullishString (get_prop b ''description'') \<Longrightarrow>
     parse_description b = Inl [Issue ''invalid_type'' [''description'']]"
  by (cases "get_prop b ''description''" rule: nullishString.cases; simp add: parse_description_def)+

lemma parse_dueDate_nullish:
  "nullishString (get_prop b ''dueDate'') \<Longrightarrow>
     parse_dueDate b =
       Inr (case get_prop b ''dueDate'' of Some (JStr s) \<Rightarrow> Some s | _ \<Rightarrow> None)"
  "\<not> nullishString (get_prop b ''dueDate'') \<Longrightarrow>
     parse_dueDate b = Inl [Issue ''invalid_union'' [''dueDate'']]"
  by (cases "get_prop b ''dueDate''" rule: nullishString.cases; simp add: parse_dueDate_def)+

lemma parse_priority_isPriority:
  "isPriority (get_prop b ''priority'') \<Longrightarrow>
     get_prop b ''priority'' = Some (JStr s) \<longleftrightarrow> parse_priority b = Inr s"
  "\<not> isPriority (get_prop b ''priority'') \<Longrightarrow>
     parse_priority b = Inl [Issue (if isString (get_prop b ''priority'')
                                    then ''invalid_enum_value'' else ''invalid_type'') [''priority'']]"
  by (cases "get_prop b ''priority''" rule: isPriority.cases; simp add: parse_priority_def)+


lemma parse_well_formed:
  assumes "well_formed b"
  shows "\<exists>t p. get_prop b ''title'' = Some (JStr t) \<and>
               get_prop b ''priority'' = Some (JStr p) \<and> p \<in> set priorities \<and>
               insertTaskSchema_parse b =
                 Inr \<lparr>it_title = t,
                      it_description = (case get_prop b ''description'' of
                                          Some (JStr s) \<Rightarrow> Some s | _ \<Rightarrow> None),
                      it_priority = p,
                      it_dueDate = (case get_prop b ''dueDate'' of
                                      Some (JStr s) \<Rightarrow> Some s | _ \<Rightarrow> None)\<rparr>"
proof -
  from assms obtain kvs where b: "b = JObj kvs"
    by (cases b) (simp_all add: well_formed_def)
  from assms obtain t where t: "get_prop b ''title'' = Some (JStr t)"
    by (cases "get_prop b ''title''" rule: isString.cases) (simp_all add: well_formed_def)
  from assms obtain p where p: "get_prop b ''priority'' = Some (JStr p)" "p \<in> set priorities"
    by (cases "get_prop b ''priority''" rule: isPriority.cases) (simp_all add: well_formed_def)
  have pt: "parse_title b = Inr t" using t by (simp add: parse_title_def)
  have pp: "parse_priority b = Inr p" using p by (simp add: parse_priority_def)
  have pd: "parse_description b =
       Inr (case get_prop b ''description'' of Some (JStr s) \<Rightarrow> Some s | _ \<Rightarrow> None)"
    using assms parse_description_nullish(1) by (simp add: well_formed_def)
  have pdd: "parse_dueDate b =
       Inr (case get_prop b ''dueDate'' of Some (JStr s) \<Rightarrow> Some s | _ \<Rightarrow> None)"
    using assms parse_dueDate_nullish(1) by (simp add: well_formed_def)
  have "insertTaskSchema_parse b =
                 Inr \<lparr>it_title = t,
                      it_description = (case get_prop b ''description'' of
                                          Some (JStr s) \<Rightarrow> Some s | _ \<Rightarrow> None),
                      it_priority = p,
                      it_dueDate = (case get_prop b ''dueDate'' of
                                      Some (JStr s) \<Rightarrow> Some s | _ \<Rightarrow> None)\<rparr>"
    unfolding insertTaskSchema_parse_def pt pp pd pdd b[symmetric] by (simp add: b)
  with t p show ?thesis by blast
qed

lemma issues_paths:
  "set (map path (issues (parse_title b))) \<subseteq> set schema_paths"
  "set (map path (issues (parse_description b))) \<subseteq> set schema_paths"
  "set (map path (issues (parse_priority b))) \<subseteq> set schema_paths"
  "set (map path (issues (parse_dueDate b))) \<subseteq> set schema_paths"
  by (auto simp: parse_title_def parse_description_def parse_priority_def parse_dueDate_def
        schema_paths_def split: option.splits json.splits if_splits)

lemma parse_object_bad:
  assumes "issues (parse_title (JObj kvs)) @ issues (parse_description (JObj kvs)) @
           issues (parse_priority (JObj kvs)) @ issues (parse_dueDate (JObj kvs)) \<noteq> []"
  shows "insertTaskSchema_parse (JObj kvs) =
           Inl (ZodError (issues (parse_title (JObj kvs)) @ issues (parse_description (JObj kvs)) @
                          issues (parse_priority (JObj kvs)) @ issues (parse_dueDate (JObj kvs))))"
  using assms
  by (cases "parse_title (JObj kvs)"; cases "parse_description (JObj kvs)";
      cases "parse_priority (JObj kvs)"; cases "parse_dueDate (JObj kvs)")
     (simp_all add: insertTaskSchema_parse_def)

lemma parse_malformed:
  assumes "\<not> well_formed b"
  shows "\<exists>iss. insertTaskSchema_parse b = Inl (ZodError iss) \<and> iss \<noteq> [] \<and>
           set (map path iss) \<subseteq> set schema_paths \<and>
           (isObject (Some b) \<and> \<not> isString (get_prop b ''title'') \<longrightarrow>
              Issue ''invalid_type'' [''title''] \<in> set iss) \<and>
           (isObject (Some b) \<and> isString (get_prop b ''priority'') \<and>
            \<not> isPriority (get_prop b ''priority'') \<longrightarrow>
              Issue ''invalid_enum_value'' [''priority''] \<in> set iss)"
proof (cases "isObject (Some b)")
  case False
  then have "insertTaskSchema_parse b = Inl (ZodError [Issue ''invalid_type'' []])"
    by (cases b) (simp_all add: insertTaskSchema_parse_def)
  then show ?thesis using False by (simp add: schema_paths_def)
next
  case True
  then obtain kvs where b: "b = JObj kvs" by (cases b) simp_all
  define iss where "iss = issues (parse_title b) @ issues (parse_description b) @
                            issues (parse_priority b) @ issues (parse_dueDate b)"
  have bad: "\<not> isString (get_prop b ''title'') \<or> \<not> nullishString (get_prop b ''description'') \<or>
             \<not> isPriority (get_prop b ''priority'') \<or> \<not> nullishString (get_prop b ''dueDate'')"
    using assms True by (auto simp: well_formed_def)
  have ne: "iss \<noteq> []"
    using bad parse_title_isString(2)[of b] parse_description_nullish(2)[of b]
      parse_priority_isPriority(2)[of b] parse_dueDate_nullish(2)[of b]
    unfolding iss_def by auto
  then have res: "insertTaskSchema_parse b = Inl (ZodError iss)"
    using parse_object_bad[of kvs] unfolding iss_def b by blast
  have paths: "set (map path iss) \<subseteq> set schema_paths"
    unfolding iss_def using issues_paths[of b] by auto
  have ti: "Issue ''invalid_type'' [''title''] \<in> set iss" if "\<not> isString (get_prop b ''title'')"
    using parse_title_isString(2)[OF that] unfolding iss_def by simp
  have pr: "Issue ''invalid_enum_value'' [''priority''] \<in> set iss"
    if "isString (get_prop b ''priority'')" "\<not> isPriority (get_prop b ''priority'')"
    using parse_priority_isPriority(2)[OF that(2)] that(1) unfolding iss_def by simp
  from res ne paths ti pr show ?thesis by blast
qed

section \<open>Tags\<close>

lemma generateTaskTags_cases:
  "fst (generateTaskTags env t d) =
     Inr (case invoke env (TagsPrompt t d) of
            Rejected \<Rightarrow> [ascii ''task'']
          | Content c \<Rightarrow>
              (let tags = take 3 (filter (\<lambda>tag. length tag > 0 \<and> newline \<notin> set tag)
                                   (map trim (split comma c)))
               in if length tags > 0 then tags else [ascii ''task'']))"
  by (simp add: generateTaskTags_def catch_def Let_def split: llm_reply.splits)

lemma kept_tag:
  assumes "tag \<in> set (filter (\<lambda>tag. length tag > 0 \<and> newline \<notin> set tag) (map trim xs))"
  shows "trim tag = tag \<and> tag \<noteq> [] \<and> newline \<notin> set tag"
proof -
  from assms obtain x where "tag = trim x" and "length tag > 0" and "newline \<notin> set tag"
    by auto
  then show ?thesis using trim_idem[of x] by simp
qed

lemma generateTaskTags_length:
  "\<exists>tags. fst (generateTaskTags env t d) = Inr tags \<and> length tags \<le> 3"
  by (simp add: generateTaskTags_cases Let_def split: llm_reply.splits)

lemma post_api_tasks_rows:
  "post_api_tasks env req_user req_body d = (out, d') \<Longrightarrow>
   rows d' = rows d \<or>
   (\<exists>t tags. rows d' = rows d @ [t] \<and> out = Inr (Json 201 (OneTask t)) \<and>
              fst (generateTaskTags env (title t) (case description t of None \<Rightarrow> [] | Some s \<Rightarrow> s)) = Inr tags \<and>
              aiTags t = Some tags)"
  by (auto simp: post_api_tasks_def createTask_def Let_def
           split: option.splits sum.splits)

lemma generateTaskTags_exact:
  "generateTaskTags env t d =
     (Inr (case invoke env (TagsPrompt t d) of
             Rejected \<Rightarrow> [ascii ''task'']
           | Content c \<Rightarrow>
               (if filter (\<lambda>tag. length tag > 0 \<and> newline \<notin> set tag)
                     (map trim (split comma c)) = []
                then [ascii ''task'']
                else take 3 (filter (\<lambda>tag. length tag > 0 \<and> newline \<notin> set tag)
                               (map trim (split comma c))))),
      [TagsPrompt t d])"
  by (simp add: generateTaskTags_def catch_def Let_def split: llm_reply.splits)

text \<open>
  C5. For every title and description, \<open>generateTaskTags\<close> makes one call, with that
  title and description, and returns at most three tags. When the call fails it returns
  \<open>["task"]\<close>. When the call answers, the reply is split on commas, each piece is
  trimmed, the empty pieces and those with a newline are dropped, and the result is the
  first three of what is left, or \<open>["task"]\<close> if nothing is left. \<open>POST /api/tasks\<close>
  either leaves the table as it is or appends one row, whose tags are what
  \<open>generateTaskTags\<close> returns for the row's title and description (the empty string for no
  description), at most three; for an authenticated user and a well-formed payload it does
  append that row.
\<close>

theorem generateTaskTags_at_most_three:
  "(\<exists>tags. generateTaskTags env t d = (Inr tags, [TagsPrompt t d]) \<and> length tags \<le> 3 \<and>
      (invoke env (TagsPrompt t d) = Rejected \<longrightarrow> tags = [ascii ''task'']) \<and>
      (\<forall>c. invoke env (TagsPrompt t d) = Content c \<longrightarrow>
           tags = (if filter (\<lambda>tag. length tag > 0 \<and> newline \<notin> set tag)
                        (map trim (split comma c)) = []
                   then [ascii ''task'']
                   else take 3 (filter (\<lambda>tag. length tag > 0 \<and> newline \<notin> set tag)
                                  (map trim (split comma c)))))) \<and>
   (\<forall>out d'. post_api_tasks env req_user req_body db0 = (out, d') \<longrightarrow>
      rows d' = rows db0 \<or>
      (\<exists>r tags. rows d' = rows db0 @ [r] \<and>
         fst (generateTaskTags env (title r) (case description r of None \<Rightarrow> [] | Some s \<Rightarrow> s)) =
           Inr tags \<and>
         aiTags r = Some tags \<and> length tags \<le> 3)) \<and>
   (well_formed req_body \<longrightarrow>
      (\<exists>r tags. post_api_tasks env (Some u) req_body db0 =
           (Inr (Json 201 (OneTask r)), db0\<lparr>rows := rows db0 @ [r], next_id := next_id db0 + 1\<rparr>) \<and>
         get_prop req_body ''title'' = Some (JStr (title r)) \<and>
         description r = (case get_prop req_body ''description'' of
                            Some (JStr s) \<Rightarrow> Some s | _ \<Rightarrow> None) \<and>
         fst (generateTaskTags env (title r) (case description r of None \<Rightarrow> [] | Some s \<Rightarrow> s)) =
           Inr tags \<and>
         aiTags r = Some tags \<and> length tags \<le> 3))"
proof (intro conjI allI impI)
  show "\<exists>tags. generateTaskTags env t d = (Inr tags, [TagsPrompt t d]) \<and> length tags \<le> 3 \<and>
      (invoke env (TagsPrompt t d) = Rejected \<longrightarrow> tags = [ascii ''task'']) \<and>
      (\<forall>c. invoke env (TagsPrompt t d) = Content c \<longrightarrow>
           tags = (if filter (\<lambda>tag. length tag > 0 \<and> newline \<notin> set tag)
                        (map trim (split comma c)) = []
                   then [ascii ''task'']
                   else take 3 (filter (\<lambda>tag. length tag > 0 \<and> newline \<notin> set tag)
                                  (map trim (split comma c)))))"
    by (cases "invoke env (TagsPrompt t d)") (simp_all add: generateTaskTags_exact)
next
  fix out d'
  assume "post_api_tasks env req_user req_body db0 = (out, d')"
  from post_api_tasks_rows[OF this]
  show "rows d' = rows db0 \<or>
      (\<exists>r tags. rows d' = rows db0 @ [r] \<and>
         fst (generateTaskTags env (title r) (case description r of None \<Rightarrow> [] | Some s \<Rightarrow> s)) =
           Inr tags \<and>
         aiTags r = Some tags \<and> length tags \<le> 3)"
    using generateTaskTags_length by (metis sum.inject(2))
next
  assume wf: "well_formed req_body"
  from parse_well_formed[OF wf] obtain ti p where
    ti: "get_prop req_body ''title'' = Some (JStr ti)" and
    v: "insertTaskSchema_parse req_body =
          Inr \<lparr>it_title = ti,
               it_description = (case get_prop req_body ''description'' of
                                   Some (JStr s) \<Rightarrow> Some s | _ \<Rightarrow> None),
               it_priority = p,
               it_dueDate = (case get_prop req_body ''dueDate'' of
                               Some (JStr s) \<Rightarrow> Some s | _ \<Rightarrow> None)\<rparr>"
    by blast
  obtain tags where tags: "fst (generateTaskTags env ti
      (case (case get_prop req_body ''description'' of Some (JStr s) \<Rightarrow> Some s | _ \<Rightarrow> None) of
         None \<Rightarrow> [] | Some s \<Rightarrow> s)) = Inr tags" and len: "length tags \<le> 3"
    using generateTaskTags_length by blast
  show "\<exists>r tags. post_api_tasks env (Some u) req_body db0 =
           (Inr (Json 201 (OneTask r)), db0\<lparr>rows := rows db0 @ [r], next_id := next_id db0 + 1\<rparr>) \<and>
         get_prop req_body ''title'' = Some (JStr (title r)) \<and>
         description r = (case get_prop req_body ''description'' of
                            Some (JStr s) \<Rightarrow> Some s | _ \<Rightarrow> None) \<and>
         fst (generateTaskTags env (title r) (case description r of None \<Rightarrow> [] | Some s \<Rightarrow> s)) =
           Inr tags \<and>
         aiTags r = Some tags \<and> length tags \<le> 3"
    using ti tags len
    by (simp add: post_api_tasks_def v createTask_def Let_def)
qed

theorem generateTaskTags_at_most_three_witness:
  "invoke env_tags (TagsPrompt (ascii ''Write report'') (ascii ''quarterly numbers'')) =
     Content (ascii ''work, urgent ,, home, extra'') \<and>
   generateTaskTags env_tags (ascii ''Write report'') (ascii ''quarterly numbers'') =
     (Inr [ascii ''work'', ascii ''urgent'', ascii ''home''],
      [TagsPrompt (ascii ''Write report'') (ascii ''quarterly numbers'')]) \<and>
   invoke env_down (TagsPrompt (ascii ''Write report'') (ascii ''quarterly numbers'')) = Rejected \<and>
   fst (generateTaskTags env_down (ascii ''Write report'') (ascii ''quarterly numbers'')) =
     Inr [ascii ''task''] \<and>
   well_formed body_report \<and>
   map aiTags (rows (snd (post_api_tasks env_tags (Some alice) body_report db_empty))) =
     [Some [ascii ''work'', ascii ''urgent'', ascii ''home'']]"
proof -
  have i: "invoke env_tags (TagsPrompt (ascii ''Write report'') (ascii ''quarterly numbers'')) =
     Content (ascii ''work, urgent ,, home, extra'')"
    by (simp add: env_tags_def)
  have j: "invoke env_down (TagsPrompt (ascii ''Write report'') (ascii ''quarterly numbers'')) =
     Rejected"
    by (simp add: env_down_def)
  have k: "(if filter (\<lambda>tag. length tag > 0 \<and> newline \<notin> set tag)
                 (map trim (split comma (ascii ''work, urgent ,, home, extra''))) = []
            then [ascii ''task'']
            else take 3 (filter (\<lambda>tag. length tag > 0 \<and> newline \<notin> set tag)
                           (map trim (split comma (ascii ''work, urgent ,, home, extra''))))) =
           [ascii ''work'', ascii ''urgent'', ascii ''home'']"
    by (simp add: string_defs)
  have w: "well_formed body_report"
    by (simp add: well_formed_def schema_defs sample_defs ascii_def)
  have c: "map aiTags (rows (snd (post_api_tasks env_tags (Some alice) body_report db_empty))) =
     [Some [ascii ''work'', ascii ''urgent'', ascii ''home'']]"
    by (simp add: generateTaskTags_def post_api_tasks_def createTask_def catch_def Let_def
          string_defs schema_defs sample_defs)
  from generateTaskTags_at_most_three
         [of env_tags "ascii ''Write report''" "ascii ''quarterly numbers''" "Some alice"
             body_report db_empty alice]
  obtain tags where
    g: "generateTaskTags env_tags (ascii ''Write report'') (ascii ''quarterly numbers'') =
          (Inr tags, [TagsPrompt (ascii ''Write report'') (ascii ''quarterly numbers'')])" and
    h: "\<forall>c. invoke env_tags (TagsPrompt (ascii ''Write report'') (ascii ''quarterly numbers'')) =
             Content c \<longrightarrow>
           tags = (if filter (\<lambda>tag. length tag > 0 \<and> newline \<notin> set tag)
                        (map trim (split comma c)) = []
                   then [ascii ''task'']
                   else take 3 (filter (\<lambda>tag. length tag > 0 \<and> newline \<notin> set tag)
                                  (map trim (split comma c))))"
    by blast
  have "tags = [ascii ''work'', ascii ''urgent'', ascii ''home'']"
    using h[rule_format, OF i] by (simp only: k)
  with g have a: "generateTaskTags env_tags (ascii ''Write report'') (ascii ''quarterly numbers'') =
     (Inr [ascii ''work'', ascii ''urgent'', ascii ''home''],
      [TagsPrompt (ascii ''Write report'') (ascii ''quarterly numbers'')])"
    by (simp only:)
  from generateTaskTags_at_most_three
         [of env_down "ascii ''Write report''" "ascii ''quarterly numbers''" "Some alice"
             body_report db_empty alice]
  obtain tags' where
    g': "generateTaskTags env_down (ascii ''Write report'') (ascii ''quarterly numbers'') =
          (Inr tags', [TagsPrompt (ascii ''Write report'') (ascii ''quarterly numbers'')])" and
    h': "invoke env_down (TagsPrompt (ascii ''Write report'') (ascii ''quarterly numbers'')) =
           Rejected \<longrightarrow> tags' = [ascii ''task'']"
    by blast
  have "tags' = [ascii ''task'']" using h'[rule_format, OF j] .
  with g' have b: "fst (generateTaskTags env_down (ascii ''Write report'')
                          (ascii ''quarterly numbers'')) = Inr [ascii ''task'']"
    by (simp only: fst_conv)
  from i a j b w c show ?thesis by blast
qed

text \<open>
  C10. \<open>generateTaskTags\<close> never returns an empty list: when a successful reply leaves no
  usable piece the result is \<open>["task"]\<close>. Every tag it returns is trimmed, is not empty
  and holds no newline.
\<close>

theorem generateTaskTags_never_empty:
  "\<exists>tags. fst (generateTaskTags env t d) = Inr tags \<and> tags \<noteq> [] \<and>
     (\<forall>tag \<in> set tags. trim tag = tag \<and> tag \<noteq> [] \<and> newline \<notin> set tag) \<and>
     (\<forall>c. invoke env (TagsPrompt t d) = Content c \<and>
          filter (\<lambda>tag. length tag > 0 \<and> newline \<notin> set tag) (map trim (split comma c)) = [] \<longrightarrow>
          tags = [ascii ''task''])"
proof (cases "invoke env (TagsPrompt t d)")
  case Rejected
  then have "fst (generateTaskTags env t d) = Inr [ascii ''task'']"
    by (simp add: generateTaskTags_cases)
  then show ?thesis using task_literal by simp
next
  case (Content c)
  define kept where
    "kept = filter (\<lambda>tag. length tag > 0 \<and> newline \<notin> set tag) (map trim (split comma c))"
  have res: "fst (generateTaskTags env t d) =
               Inr (if take 3 kept = [] then [ascii ''task''] else take 3 kept)"
    using Content by (simp add: generateTaskTags_cases kept_def Let_def)
  show ?thesis
  proof (cases "take 3 kept = []")
    case True
    then have "fst (generateTaskTags env t d) = Inr [ascii ''task'']"
      using res by simp
    then show ?thesis using task_literal by simp
  next
    case False
    then have r: "fst (generateTaskTags env t d) = Inr (take 3 kept)"
      using res by simp
    have all: "\<forall>tag \<in> set (take 3 kept). trim tag = tag \<and> tag \<noteq> [] \<and> newline \<notin> set tag"
    proof
      fix tag assume "tag \<in> set (take 3 kept)"
      then have "tag \<in> set kept" by (rule in_set_takeD)
      then show "trim tag = tag \<and> tag \<noteq> [] \<and> newline \<notin> set tag"
        unfolding kept_def by (rule kept_tag)
    qed
    have ne: "kept \<noteq> []" using False by auto
    have "\<forall>c'. invoke env (TagsPrompt t d) = Content c' \<and>
          filter (\<lambda>tag. length tag > 0 \<and> newline \<notin> set tag) (map trim (split comma c')) = [] \<longrightarrow>
          take 3 kept = [ascii ''task'']"
      using Content ne unfolding kept_def by auto
    with r False all show ?thesis by blast
  qed
qed

theorem generateTaskTags_never_empty_witness:
  "invoke env_blank (TagsPrompt (ascii ''t'') []) = Content (ascii '' , ,'') \<and>
   filter (\<lambda>tag. length tag > 0 \<and> newline \<notin> set tag) (map trim (split comma (ascii '' , ,''))) = [] \<and>
   fst (generateTaskTags env_blank (ascii ''t'') []) = Inr [ascii ''task''] \<and>
   fst (generateTaskTags env_tags (ascii ''t'') []) = Inr [ascii ''work'', ascii ''urgent'', ascii ''home''] \<and>
   trim (ascii ''urgent'') = ascii ''urgent''"
proof -
  have a: "invoke env_blank (TagsPrompt (ascii ''t'') []) = Content (ascii '' , ,'')"
    by (simp add: env_blank_def)
  have b: "filter (\<lambda>tag. length tag > 0 \<and> newline \<notin> set tag)
             (map trim (split comma (ascii '' , ,''))) = []"
    by (simp add: generateTaskTags_def post_api_tasks_def createTask_def catch_def Let_def
          string_defs schema_defs sample_defs)
  have c: "fst (generateTaskTags env_tags (ascii ''t'') []) =
             Inr [ascii ''work'', ascii ''urgent'', ascii ''home'']"
    by (simp add: generateTaskTags_def post_api_tasks_def createTask_def catch_def Let_def
          string_defs schema_defs sample_defs)
  have d: "trim (ascii ''urgent'') = ascii ''urgent''"
    by (simp add: generateTaskTags_def post_api_tasks_def createTask_def catch_def Let_def
          string_defs schema_defs sample_defs)
  from generateTaskTags_never_empty [of env_blank "ascii ''t''" "[]"] a b
  have "fst (generateTaskTags env_blank (ascii ''t'') []) = Inr [ascii ''task'']"
    by blast
  with a b c d show ?thesis by blast
qed

section \<open>Insights and reports on an empty task set\<close>

text \<open>
  C4. On an empty task set \<open>generateTaskInsights\<close> returns no groups, the one starter
  recommendation and the rate \<open>0%\<close>, and \<open>generateReport\<close> returns the fallback report
  of the empty list; neither calls the model.
\<close>

theorem empty_task_set_fallbacks:
  "generateTaskInsights env [] =
     (Inr (obj [(''taskGroups'', JArr []),
                (''recommendations'',
                 JArr [str ''Start by adding some tasks to get AI-powered insights'']),
                (''completionRate'', str ''0%'')]), []) \<and>
   generateReport env [] insights u = (Inr (getFallbackReport []), []) \<and>
   get_prop (getFallbackReport []) ''executiveSummary'' =
     Some (obj [(''summary'', str ''Task Management Overview (Generated from fallback)''),
                (''metrics'', JArr [str ''Total Tasks: 0'', str ''Completed Tasks: 0'',
                                    str ''Completion Rate: 0%'', str ''High Priority Tasks: 0''])]) \<and>
   get_prop (getFallbackReport []) ''productivityMetrics'' =
     Some (str ''Current completion rate is 0%. Task metrics are being calculated.'')"
  by (simp add: generateTaskInsights_def emptyInsights_def generateReport_def
        generateReport_try_def catch_def getFallbackReport_def completionRate_def
        toString_def obj_def str_def ascii_def)

section \<open>The two insights routes\<close>


section \<open>Insights and reports when the model is of no use\<close>

lemma parseInsights_eq:
  "parseInsights env tasks c =
     Inr (case extractInsights env c of Some j \<Rightarrow> j | None \<Rightarrow> getFallbackInsights tasks)"
  by (auto simp: parseInsights_def extractInsights_def catch_def
           split: option.splits sum.splits)

lemma parseReport_eq:
  "parseReport env c =
     (case extractReport env c of
        Some j \<Rightarrow> Inr j
      | None \<Rightarrow> Inl (Error ''Failed to parse AI response''))"
  by (auto simp: parseReport_def extractReport_def catch_def
           split: option.splits sum.splits)

lemma generateTaskInsights_cases:
  "fst (generateTaskInsights env tasks) =
     Inr (if tasks = [] then emptyInsights
          else (case invoke env (InsightsPrompt tasks) of
                  Rejected \<Rightarrow> getFallbackInsights tasks
                | Content c \<Rightarrow>
                    (case extractInsights env c of
                       Some j \<Rightarrow> j
                     | None \<Rightarrow> getFallbackInsights tasks)))"
  by (simp add: generateTaskInsights_def parseInsights_eq catch_def Let_def
           split: llm_reply.splits)

lemma generateReport_cases:
  "fst (generateReport env tasks insights u) =
     Inr (if tasks = [] then getFallbackReport tasks
          else (case invoke env (ReportPrompt u tasks insights) of
                  Rejected \<Rightarrow> getFallbackReport tasks
                | Content c \<Rightarrow>
                    (case extractReport env c of
                       Some j \<Rightarrow> j
                     | None \<Rightarrow> getFallbackReport tasks)))"
  by (simp add: generateReport_def generateReport_try_def parseReport_eq catch_def Let_def
           split: llm_reply.splits option.splits)

lemma get_prop_obj_simps:
  "get_prop (obj ((k, v) # kvs)) k' =
     (case get_prop (obj kvs) k' of Some w \<Rightarrow> Some w | None \<Rightarrow> if ascii k = ascii k' then Some v else None)"
  "get_prop (obj []) k' = None"
  by (auto simp: obj_def map_add_def split: option.splits)


lemma insights_contract_fallback: "insights_contract (getFallbackInsights tasks)"
  apply (simp add: insights_contract_def getFallbackInsights_def isTaskGroup_def get_prop_obj_simps str_def)
  apply (simp add: obj_def  list_all_iff ascii_def)
  done

lemma report_contract_fallback: "report_contract (getFallbackReport tasks)"
  apply (simp add: report_contract_def summary_contract_def getFallbackReport_def Let_def str_def obj_def)
  apply (simp add: ascii_def)
  done

lemma truthy_extractReport: "extractReport env c = Some j \<Longrightarrow> truthy j"
  by (auto simp: extractReport_def validateReportStructure_def validateReportStructure_body_def
           split: option.splits if_splits sum.splits)

lemma truthy_fallbackReport: "truthy (getFallbackReport tasks)"
  by (simp add: getFallbackReport_def obj_def Let_def)

lemma generateReport_truthy:
  "\<exists>rep. fst (generateReport env tasks insights u) = Inr rep \<and> truthy rep"
  by (auto simp: generateReport_cases truthy_fallbackReport truthy_extractReport
           split: llm_reply.splits option.splits)

text \<open>
  C3. On a task set that is not empty, when the model call is rejected, or when no JSON
  value can be extracted and validated from its reply, \<open>generateTaskInsights\<close> and
  \<open>generateReport\<close> return (they do not throw) the fallback object of the task set, and
  that object satisfies the structural contract.
\<close>

theorem fallback_on_failure:
  assumes "tasks \<noteq> []"
  shows "(invoke env (InsightsPrompt tasks) = Rejected \<or>
            (\<exists>c. invoke env (InsightsPrompt tasks) = Content c \<and> extractInsights env c = None) \<longrightarrow>
          fst (generateTaskInsights env tasks) = Inr (getFallbackInsights tasks) \<and>
          insights_contract (getFallbackInsights tasks)) \<and>
         (invoke env (ReportPrompt u tasks insights) = Rejected \<or>
            (\<exists>c. invoke env (ReportPrompt u tasks insights) = Content c \<and> extractReport env c = None) \<longrightarrow>
          fst (generateReport env tasks insights u) = Inr (getFallbackReport tasks) \<and>
          report_contract (getFallbackReport tasks))"
  using assms
  by (auto simp: generateTaskInsights_cases generateReport_cases
        insights_contract_fallback report_contract_fallback)

lemma two_rate: "completionRate [bobs_task, bobs_done] = 50"
  by code_simp

lemma forty_rate: "completionRate forty_tasks = 57"
  by code_simp

lemma toString_50: "toString 50 = ascii ''50''" 
  by (simp add: toString_def ascii_def)

lemma fallback_two:
  "getFallbackInsights [bobs_task, bobs_done] =
     obj [(''taskGroups'', JArr [obj [(''name'', str ''All Tasks''),
                                      (''tasks'', JArr [str ''Pay rent'', str ''Call bank''])]]),
          (''recommendations'', JArr [str ''Focus on completing high-priority tasks first'',
                                      str ''Review and update task priorities regularly'']),
          (''completionRate'', str ''50%'')]"
  by (simp add: getFallbackInsights_def two_rate toString_50 str_def)
     (simp add: sample_defs ascii_def)

theorem fallback_on_failure_witness:
  "[bobs_task, bobs_done] \<noteq> [] \<and>
   invoke env_down (InsightsPrompt [bobs_task, bobs_done]) = Rejected \<and>
   invoke env_prose (ReportPrompt bob [bobs_task, bobs_done] emptyInsights) =
     Content (ascii ''Sorry, I cannot help with that.'') \<and>
   extractReport env_prose (ascii ''Sorry, I cannot help with that.'') = None \<and>
   fst (generateTaskInsights env_down [bobs_task, bobs_done]) =
     Inr (obj [(''taskGroups'', JArr [obj [(''name'', str ''All Tasks''),
                                      (''tasks'', JArr [str ''Pay rent'', str ''Call bank''])]]),
          (''recommendations'', JArr [str ''Focus on completing high-priority tasks first'',
                                      str ''Review and update task priorities regularly'']),
          (''completionRate'', str ''50%'')]) \<and>
   fst (generateReport env_prose [bobs_task, bobs_done] emptyInsights bob) =
     Inr (getFallbackReport [bobs_task, bobs_done])"
proof -
  have ne: "[bobs_task, bobs_done] \<noteq> []" by simp
  have a: "invoke env_down (InsightsPrompt [bobs_task, bobs_done]) = Rejected"
    by (simp add: env_down_def)
  have b: "invoke env_prose (ReportPrompt bob [bobs_task, bobs_done] emptyInsights) =
     Content (ascii ''Sorry, I cannot help with that.'')"
    by (simp add: env_prose_def)
  have c: "extractReport env_prose (ascii ''Sorry, I cannot help with that.'') = None"
    by (simp add: extractReport_def jsonMatch_def match_fenced_def match_inline_def
          match_braces_def fence_def backtick_def lbrace_def rbrace_def string_defs Let_def)
  from fallback_on_failure [OF ne, of env_down bob emptyInsights] a
  have d: "fst (generateTaskInsights env_down [bobs_task, bobs_done]) =
             Inr (getFallbackInsights [bobs_task, bobs_done])"
    by blast
  from fallback_on_failure [OF ne, of env_prose bob emptyInsights] b c
  have e: "fst (generateReport env_prose [bobs_task, bobs_done] emptyInsights bob) =
     Inr (getFallbackReport [bobs_task, bobs_done])"
    by blast
  from ne a b c d e show ?thesis unfolding fallback_two by blast
qed

section \<open>The report route\<close>

text \<open>
  C7. For an authenticated caller \<open>GET /api/report\<close> answers 400 with the no-tasks message
  exactly when the caller has no tasks. Otherwise it computes the insights of the caller's
  tasks, hands them to the report generation (they are part of what is sent to the model),
  and answers 200 with the report.
\<close>

theorem report_route:
  "(getTasksByUserId (id_user u) d = [] \<longrightarrow>
      get_api_report env (Some u) d =
        (Inr (Json 400 (Value (obj [(''message'',
           str ''No tasks found. Please add some tasks before generating a report.'')]))), d)) \<and>
   (getTasksByUserId (id_user u) d \<noteq> [] \<longrightarrow>
      (\<exists>insights report.
         generateTaskInsights env (getTasksByUserId (id_user u) d) =
           (Inr insights, [InsightsPrompt (getTasksByUserId (id_user u) d)]) \<and>
         generateReport env (getTasksByUserId (id_user u) d) insights u =
           (Inr report, [ReportPrompt u (getTasksByUserId (id_user u) d) insights]) \<and>
         get_api_report env (Some u) d = (Inr (Json 200 (Value report)), d))) \<and>
   ((\<exists>b. fst (get_api_report env (Some u) d) = Inr (Json 400 b)) \<longleftrightarrow>
      getTasksByUserId (id_user u) d = [])"
proof -
  define tasks where "tasks = getTasksByUserId (id_user u) d"
  have empty: "get_api_report env (Some u) d = (Inr (Json 400 (Value noTasksMessage)), d)"
    if "tasks = []"
    using that by (simp add: get_api_report_def report_try_def catch_def tasks_def)
  have full: "\<exists>insights report.
         generateTaskInsights env tasks = (Inr insights, [InsightsPrompt tasks]) \<and>
         generateReport env tasks insights u = (Inr report, [ReportPrompt u tasks insights]) \<and>
         get_api_report env (Some u) d = (Inr (Json 200 (Value report)), d)"
    if ne: "tasks \<noteq> []"
  proof -
    obtain insights where i: "fst (generateTaskInsights env tasks) = Inr insights"
      by (simp add: generateTaskInsights_cases)
    have i2: "snd (generateTaskInsights env tasks) = [InsightsPrompt tasks]"
      using ne by (simp add: generateTaskInsights_def Let_def)
    obtain report where r: "fst (generateReport env tasks insights u) = Inr report"
      and t: "truthy report"
      using generateReport_truthy by blast
    have r2: "snd (generateReport env tasks insights u) = [ReportPrompt u tasks insights]"
      using ne by (simp add: generateReport_def generateReport_try_def Let_def split: prod.splits)
    have "get_api_report env (Some u) d = (Inr (Json 200 (Value report)), d)"
      using ne i r t
      by (simp add: get_api_report_def report_try_def catch_def tasks_def[symmetric])
    with i i2 r r2 show ?thesis by (metis prod.collapse)
  qed
  have iff: "(\<exists>b. fst (get_api_report env (Some u) d) = Inr (Json 400 b)) \<longleftrightarrow> tasks = []"
  proof (cases "tasks = []")
    case True
    then show ?thesis using empty by simp
  next
    case False
    from full[OF False] obtain report where
      "get_api_report env (Some u) d = (Inr (Json 200 (Value report)), d)" by blast
    then show ?thesis using False by simp
  qed
  show ?thesis
    unfolding tasks_def[symmetric]
    using empty full iff by (simp add: noTasksMessage_def)
qed

theorem report_route_witness:
  "getTasksByUserId (id_user alice) db_two = [] \<and>
   get_api_report env_down (Some alice) db_two =
     (Inr (Json 400 (Value (obj [(''message'',
        str ''No tasks found. Please add some tasks before generating a report.'')]))), db_two) \<and>
   getTasksByUserId (id_user bob) db_two = [bobs_task, bobs_done] \<and>
   get_api_report env_down (Some bob) db_two =
     (Inr (Json 200 (Value (getFallbackReport [bobs_task, bobs_done]))), db_two)"
proof -
  have a: "getTasksByUserId (id_user alice) db_two = []"
    by (simp add: getTasksByUserId_def sample_defs)
  have b: "getTasksByUserId (id_user bob) db_two = [bobs_task, bobs_done]"
    by (simp add: getTasksByUserId_def sample_defs)
  from report_route [of alice db_two env_down] a
  have c: "get_api_report env_down (Some alice) db_two =
     (Inr (Json 400 (Value (obj [(''message'',
        str ''No tasks found. Please add some tasks before generating a report.'')]))), db_two)"
    by blast
  from report_route [of bob db_two env_down] b
  obtain insights report where
    "generateReport env_down [bobs_task, bobs_done] insights bob =
       (Inr report, [ReportPrompt bob [bobs_task, bobs_done] insights])" and
    r: "get_api_report env_down (Some bob) db_two = (Inr (Json 200 (Value report)), db_two)"
    by auto
  then have "Inr report = fst (generateReport env_down [bobs_task, bobs_done] insights bob)"
    by simp
  also have "\<dots> = Inr (getFallbackReport [bobs_task, bobs_done])"
    by (simp add: generateReport_cases env_down_def)
  finally have "report = getFallbackReport [bobs_task, bobs_done]" by simp
  with a b c r show ?thesis by blast
qed

section \<open>Task payloads at the writing routes\<close>

text \<open>
  C2, as the code has it. A body that is not a well-formed task payload makes
  \<open>POST /api/tasks\<close> fail with the schema's validation error before anything is stored:
  the table is unchanged, the error lists at least one issue, every issue points at a field
  of the schema or at the root, a title that is missing or no string is reported at
  \<open>title\<close>, and a priority string outside high, medium and low at \<open>priority\<close>.
\<close>

theorem malformed_post_is_refused:
  assumes "\<not> well_formed req_body"
  shows "\<exists>iss. post_api_tasks env (Some u) req_body d = (Inl (ZodError iss), d) \<and> iss \<noteq> [] \<and>
           set (map path iss) \<subseteq> set schema_paths \<and>
           (isObject (Some req_body) \<and> \<not> isString (get_prop req_body ''title'') \<longrightarrow>
              Issue ''invalid_type'' [''title''] \<in> set iss) \<and>
           (isObject (Some req_body) \<and> isString (get_prop req_body ''priority'') \<and>
            \<not> isPriority (get_prop req_body ''priority'') \<longrightarrow>
              Issue ''invalid_enum_value'' [''priority''] \<in> set iss)"
proof -
  from parse_malformed[OF assms] obtain iss where
    p: "insertTaskSchema_parse req_body = Inl (ZodError iss)" and
    rest: "iss \<noteq> []" "set (map path iss) \<subseteq> set schema_paths"
      "isObject (Some req_body) \<and> \<not> isString (get_prop req_body ''title'') \<longrightarrow>
              Issue ''invalid_type'' [''title''] \<in> set iss"
      "isObject (Some req_body) \<and> isString (get_prop req_body ''priority'') \<and>
            \<not> isPriority (get_prop req_body ''priority'') \<longrightarrow>
              Issue ''invalid_enum_value'' [''priority''] \<in> set iss"
    by blast
  have "post_api_tasks env (Some u) req_body d = (Inl (ZodError iss), d)"
    using p by (simp add: post_api_tasks_def)
  with rest show ?thesis by blast
qed

theorem malformed_post_is_refused_witness:
  "\<not> well_formed body_untitled \<and>
   post_api_tasks env_tags (Some alice) body_untitled db_bob =
     (Inl (ZodError [Issue ''invalid_type'' [''title'']]), db_bob) \<and>
   \<not> well_formed body_urgent \<and>
   post_api_tasks env_tags (Some alice) body_urgent db_bob =
     (Inl (ZodError [Issue ''invalid_enum_value'' [''priority'']]), db_bob)"
proof -
  have a: "\<not> well_formed body_untitled"
    by (simp add: well_formed_def schema_defs sample_defs ascii_def)
  have b: "\<not> well_formed body_urgent"
    by (simp add: well_formed_def schema_defs sample_defs ascii_def)
  from malformed_post_is_refused [OF a, of env_tags alice db_bob]
  obtain iss where "post_api_tasks env_tags (Some alice) body_untitled db_bob =
                      (Inl (ZodError iss), db_bob)"
    by blast
  moreover have "post_api_tasks env_tags (Some alice) body_untitled db_bob =
     (Inl (ZodError [Issue ''invalid_type'' [''title'']]), db_bob)"
    by (simp add: post_api_tasks_def schema_defs sample_defs ascii_def)
  moreover have "post_api_tasks env_tags (Some alice) body_urgent db_bob =
     (Inl (ZodError [Issue ''invalid_enum_value'' [''priority'']]), db_bob)"
    by (simp add: post_api_tasks_def schema_defs sample_defs ascii_def)
  ultimately show ?thesis using a b by blast
qed

text \<open>
  C2 as stated (a malformed payload at \<open>POST /api/tasks\<close> or \<open>PATCH /api/tasks/:id\<close> is
  answered with a Bad-Request-class error and nothing is created or modified) fails.
  \<open>PATCH /api/tasks/:id\<close> hands its body to the store unchecked: a
  priority outside the three members is written and answered with 200. And the handler of
  \<open>POST /api/tasks\<close> ends in the exception the schema throws, not in a response it sends
  with a status of its own.
\<close>

theorem malformed_patch_is_applied:
  "rows db_bob = [bobs_task] \<and> p_priority patch_urgent = Some (ascii ''urgent'') \<and>
   ascii ''urgent'' \<notin> set priorities \<and>
   fst (patch_api_tasks_id (Some bob) (Some 7) patch_urgent db_bob) =
     Inr (Json 200 (OneTask bobs_task_urgent)) \<and>
   rows (snd (patch_api_tasks_id (Some bob) (Some 7) patch_urgent db_bob)) = [bobs_task_urgent] \<and>
   post_api_tasks env_down (Some bob) body_untitled db_bob =
     (Inl (ZodError [Issue ''invalid_type'' [''title'']]), db_bob)"
  by (simp add: patch_api_tasks_id_def updateTask_def apply_patch_def post_api_tasks_def
        schema_defs sample_defs ascii_def)

section \<open>Creating a task and listing it\<close>

text \<open>
  C9. For an authenticated user and a well-formed payload, \<open>POST /api/tasks\<close> answers 201
  with the new task, and \<open>GET /api/tasks\<close> for that user then lists it, after the tasks
  the user had, with the title, the priority and the description of the payload.
\<close>

theorem create_then_list:
  assumes "well_formed req_body"
  shows "\<exists>t d'. post_api_tasks env (Some u) req_body d = (Inr (Json 201 (OneTask t)), d') \<and>
           get_api_tasks (Some u) d' =
             (Inr (Json 200 (Tasks (getTasksByUserId (id_user u) d @ [t]))), d') \<and>
           get_prop req_body ''title'' = Some (JStr (title t)) \<and>
           get_prop req_body ''priority'' = Some (JStr (priority t)) \<and>
           description t = (case get_prop req_body ''description'' of
                              Some (JStr s) \<Rightarrow> Some s | _ \<Rightarrow> None)"
proof -
  from parse_well_formed[OF assms] obtain t p where
    t: "get_prop req_body ''title'' = Some (JStr t)" and
    p: "get_prop req_body ''priority'' = Some (JStr p)" and
    v: "insertTaskSchema_parse req_body =
          Inr \<lparr>it_title = t,
               it_description = (case get_prop req_body ''description'' of
                                   Some (JStr s) \<Rightarrow> Some s | _ \<Rightarrow> None),
               it_priority = p,
               it_dueDate = (case get_prop req_body ''dueDate'' of
                               Some (JStr s) \<Rightarrow> Some s | _ \<Rightarrow> None)\<rparr>"
    by blast
  obtain tags where tags: "fst (generateTaskTags env t
      (case (case get_prop req_body ''description'' of Some (JStr s) \<Rightarrow> Some s | _ \<Rightarrow> None) of
         None \<Rightarrow> [] | Some s \<Rightarrow> s)) = Inr tags"
    using generateTaskTags_length by blast
  show ?thesis
    using t p
    by (simp add: post_api_tasks_def v tags createTask_def get_api_tasks_def
          getTasksByUserId_def Let_def)
qed

theorem create_then_list_witness:
  "well_formed body_report \<and>
   post_api_tasks env_tags (Some alice) body_report db_bob =
     (Inr (Json 201 (OneTask created_task)), db_bob\<lparr>rows := [bobs_task, created_task], next_id := 9\<rparr>) \<and>
   get_api_tasks (Some alice) (db_bob\<lparr>rows := [bobs_task, created_task], next_id := 9\<rparr>) =
     (Inr (Json 200 (Tasks [created_task])), db_bob\<lparr>rows := [bobs_task, created_task], next_id := 9\<rparr>) \<and>
   title created_task = ascii ''Write report'' \<and>
   priority created_task = ascii ''high'' \<and>
   description created_task = Some (ascii ''quarterly numbers'')"
proof -
  have a: "well_formed body_report"
    by (simp add: well_formed_def schema_defs sample_defs ascii_def)
  from create_then_list [OF a, of env_tags alice db_bob]
  obtain t d' where "post_api_tasks env_tags (Some alice) body_report db_bob =
                       (Inr (Json 201 (OneTask t)), d')"
    by blast
  moreover have "post_api_tasks env_tags (Some alice) body_report db_bob =
     (Inr (Json 201 (OneTask created_task)),
      db_bob\<lparr>rows := [bobs_task, created_task], next_id := 9\<rparr>)"
    by (simp add: post_api_tasks_def generateTaskTags_def createTask_def catch_def Let_def
          string_defs schema_defs sample_defs)
  moreover have "get_api_tasks (Some alice) (db_bob\<lparr>rows := [bobs_task, created_task], next_id := 9\<rparr>) =
     (Inr (Json 200 (Tasks [created_task])),
      db_bob\<lparr>rows := [bobs_task, created_task], next_id := 9\<rparr>)"
    by (simp add: get_api_tasks_def getTasksByUserId_def sample_defs)
  moreover have "title created_task = ascii ''Write report'' \<and>
     priority created_task = ascii ''high'' \<and>
     description created_task = Some (ascii ''quarterly numbers'')"
    by (simp add: created_task_def)
  ultimately show ?thesis using a by blast
qed

section \<open>Whose task it is\<close>

text \<open>
  The list route returns the rows of the caller and no others. The update and the delete
  route pass the identifier alone to the store: whoever is logged in, the answer and the
  new table are the same.
\<close>

lemma get_api_tasks_own:
  "get_api_tasks (Some u) d = (out, d') \<Longrightarrow>
   d' = d \<and> out = Inr (Json 200 (Tasks (filter (\<lambda>t. userId t = id_user u) (rows d))))"
  by (auto simp: get_api_tasks_def getTasksByUserId_def)

lemma patch_any_requester:
  "patch_api_tasks_id (Some u) i p d = patch_api_tasks_id (Some v) i p d"
  by (simp add: patch_api_tasks_id_def)

lemma delete_any_requester:
  "delete_api_tasks_id (Some u) i d = delete_api_tasks_id (Some v) i d"
  by (simp add: delete_api_tasks_id_def)

lemma patch_reaches_any_row:
  assumes "find (\<lambda>t. id_task t = k) (rows d) = Some t"
  shows "fst (patch_api_tasks_id (Some u) (Some k) p d) = Inr (Json 200 (OneTask (apply_patch p t)))"
    and "rows (snd (patch_api_tasks_id (Some u) (Some k) p d)) =
           map (\<lambda>r. if id_task r = k then apply_patch p r else r) (rows d)"
  using assms by (simp_all add: patch_api_tasks_id_def updateTask_def)

lemma delete_reaches_any_row:
  "rows (snd (delete_api_tasks_id (Some u) (Some k) d)) = filter (\<lambda>r. id_task r \<noteq> k) (rows d)"
  by (simp add: delete_api_tasks_id_def deleteTask_def)

text \<open>
  C1. Claimed: for distinct users \<open>u\<close> and \<open>v\<close> and a task of \<open>v\<close>, the list, the update
  and the delete invoked by \<open>u\<close> never return, change or remove that task. The routes do
  not keep it. Bob owns task 7. Alice, logged in, does not see it in her list, yet her
  \<open>PATCH /api/tasks/7\<close> marks it completed and is answered 200 with Bob's task, and her
  \<open>DELETE /api/tasks/7\<close> removes it.
\<close>

theorem cross_user_patch_and_delete:
  "rows db_bob = [bobs_task] \<and> userId bobs_task = id_user bob \<and> id_user alice \<noteq> id_user bob \<and>
   fst (get_api_tasks (Some alice) db_bob) = Inr (Json 200 (Tasks [])) \<and>
   fst (patch_api_tasks_id (Some alice) (Some 7) patch_done db_bob) =
     Inr (Json 200 (OneTask bobs_task_completed)) \<and>
   rows (snd (patch_api_tasks_id (Some alice) (Some 7) patch_done db_bob)) = [bobs_task_completed] \<and>
   fst (delete_api_tasks_id (Some alice) (Some 7) db_bob) = Inr (SendStatus 204) \<and>
   rows (snd (delete_api_tasks_id (Some alice) (Some 7) db_bob)) = []"
  by (simp add: patch_api_tasks_id_def delete_api_tasks_id_def updateTask_def deleteTask_def
        apply_patch_def get_api_tasks_def getTasksByUserId_def sample_defs)

section \<open>Double precision: how far a rounded value is from the exact one\<close>

lemma roundTiesToEven_error: "\<bar>of_int (roundTiesToEven x) - x\<bar> \<le> 1 / 2"
proof -
  have "of_int \<lfloor>x\<rfloor> \<le> x" "x < of_int \<lfloor>x\<rfloor> + 1" by linarith+
  then show ?thesis
    unfolding roundTiesToEven_def Let_def by (auto simp: abs_le_iff) 
qed

lemma exponent_lower:
  assumes "0 < x"
  shows "2 powi (exponent x) \<le> x"
proof -
  obtain p q where pq: "quotient_of x = (p, q)" by (cases "quotient_of x")
  have q: "0 < q" using pq by (rule quotient_of_denom_pos)
  have x: "x = of_int p / of_int q" using pq by (rule quotient_of_div)
  have p: "0 < p" using assms q x by (simp add: zero_less_divide_iff)
  define e where "e = bitlen p - bitlen q"
  have ex: "exponent x = (if 2 powi e \<le> x then e else e - 1)"
    by (simp add: exponent_def pq e_def Let_def)
  have bp: "(2::rat) ^ nat (bitlen p - 1) \<le> of_int p"
    using bitlen_bounds[OF p] by (metis of_int_le_iff of_int_numeral of_int_power)
  have bq: "of_int q \<le> (2::rat) ^ nat (bitlen q)"
    using bitlen_bounds[OF q] by (metis less_imp_le of_int_le_iff of_int_numeral of_int_power)
  have b1: "1 \<le> bitlen p" using p bitlen_bounds[OF p] by (smt (verit) bitlen_eq_zero_iff bitlen_nonneg)
  have "(2::rat) powi (e - 1) = 2 powi (bitlen p - 1) / 2 powi (bitlen q)"
    unfolding e_def by (simp add: power_int_diff)
  also have "\<dots> = 2 ^ nat (bitlen p - 1) / 2 ^ nat (bitlen q)"
    using b1 bitlen_nonneg[of q] by (simp add: power_int_nonneg_exp)
  also have "\<dots> \<le> of_int p / of_int q"
    using bp bq q p by (intro frac_le) auto
  finally have "(2::rat) powi (e - 1) \<le> x" using x by simp
  then show ?thesis unfolding ex by simp
qed

lemma binary64_error:
  assumes "0 < x"
  shows "\<bar>binary64 x - x\<bar> \<le> x / 2 ^ 53"
proof -
  define u :: rat where "u = 2 powi (exponent x - 52)"
  have u: "0 < u" unfolding u_def by simp
  have b: "binary64 x = of_int (roundTiesToEven (x / u)) * u"
    using assms by (simp add: binary64_def u_def Let_def)
  have "binary64 x - x = (of_int (roundTiesToEven (x / u)) - x / u) * u"
    using u by (simp add: b left_diff_distrib)
  then have "\<bar>binary64 x - x\<bar> = \<bar>of_int (roundTiesToEven (x / u)) - x / u\<bar> * u"
    using u by (simp add: abs_mult)
  also have "\<dots> \<le> 1 / 2 * u"
    using roundTiesToEven_error[of "x / u"] u by (intro mult_right_mono) auto
  also have "\<dots> = 2 powi (exponent x) / 2 ^ 53"
    unfolding u_def by (simp add: power_int_diff)
  also have "\<dots> \<le> x / 2 ^ 53"
    using exponent_lower[OF assms] by (simp add: divide_right_mono)
  finally show ?thesis .
qed


lemma percent_error:
  assumes "0 < c" "c \<le> n"
  shows "\<bar>js_mul (js_div (of_nat c) (of_nat n)) 100 - 100 * of_nat c / of_nat n\<bar> \<le> 300 / 2 ^ 53"
proof -
  define x :: rat where "x = of_nat c / of_nat n"
  define y where "y = binary64 x"
  define z where "z = binary64 (y * 100)"
  have n: "0 < n" using assms by simp
  have x0: "0 < x" unfolding x_def using assms n by simp
  have x1: "x \<le> 1" unfolding x_def using assms n by simp
  have ey: "\<bar>y - x\<bar> \<le> x / 2 ^ 53" unfolding y_def by (rule binary64_error[OF x0])
  have "x / 2 ^ 53 < x" using x0 by (simp add: field_simps)
  with ey have y0: "0 < y" by linarith
  have y2: "y \<le> 2" using ey x1 x0 \<open>x / 2 ^ 53 < x\<close> by linarith
  have ez: "\<bar>z - y * 100\<bar> \<le> y * 100 / 2 ^ 53"
    unfolding z_def using y0 by (intro binary64_error) simp
  define eps :: rat where "eps = 1 / 2 ^ 53"
  have "y * 100 / 2 ^ 53 \<le> 200 / 2 ^ 53" using y2 by (simp add: divide_right_mono)
  with ez have a1: "\<bar>z - y * 100\<bar> \<le> 200 * eps" unfolding eps_def by simp
  have "x / 2 ^ 53 \<le> 1 / 2 ^ 53" using x1 by (simp add: divide_right_mono)
  with ey have a2: "\<bar>y - x\<bar> \<le> eps" unfolding eps_def by simp
  from a1 a2 have "\<bar>z - 100 * x\<bar> \<le> 300 * eps" by linarith
  then have "\<bar>z - 100 * x\<bar> \<le> 300 / 2 ^ 53" unfolding eps_def by simp
  then show ?thesis
    by (simp add: js_mul_def js_div_def z_def y_def x_def)
qed


lemma percent_error0:
  assumes "c \<le> n" "0 < n"
  shows "\<bar>js_mul (js_div (of_nat c) (of_nat n)) 100 - 100 * of_nat c / of_nat n\<bar> \<le> 300 / 2 ^ 53"
proof (cases "c = 0")
  case True
  then show ?thesis by (simp add: js_mul_def js_div_def binary64_def)
next
  case False
  then show ?thesis using percent_error[of c n] assms by simp
qed

lemma rate_rounding:
  fixes c n :: nat
  assumes "c \<le> n" "0 < n" "n < 2 ^ 32"
  defines "r \<equiv> Math_round (js_mul (js_div (of_nat c) (of_nat n)) 100)"
  defines "X \<equiv> (100 * of_nat c / of_nat n :: rat)"
  shows "((200 * c + n) mod (2 * n) \<noteq> 0 \<longrightarrow> r = round X) \<and> (r = round X \<or> r = round X - 1)"
proof -
  define z where "z = js_mul (js_div (of_nat c) (of_nat n)) 100"
  define m where "m = 200 * c + n"
  define k where "k = 2 * n"
  define R where "R = int (m div k)"
  define f where "f = m mod k"
  define eps :: rat where "eps = 300 / 2 ^ 53"
  have k0: "0 < k" using assms by (simp add: k_def)
  have kr: "(0::rat) < of_nat k" using k0 by simp
  have err: "\<bar>z - X\<bar> \<le> eps"
    unfolding z_def X_def eps_def using assms by (intro percent_error0) auto
  have t: "X + 1 / 2 = of_nat m / of_nat k"
    using assms by (simp add: X_def m_def k_def field_simps)
  have "m = k * (m div k) + m mod k" by simp
  then have "(of_nat m :: rat) = of_nat k * of_nat (m div k) + of_nat (m mod k)"
    by (metis of_nat_add of_nat_mult)
  then have decomp: "(of_nat m :: rat) / of_nat k = of_int R + of_nat f / of_nat k"
    using kr by (simp add: R_def f_def field_simps)
  have f_lt: "f < k" unfolding f_def using k0 by simp
  have kb: "(of_nat k :: rat) * eps < 1"
  proof -
    have "k < 2 ^ 33" using assms by (simp add: k_def)
    then have "(of_nat k :: rat) < 2 ^ 33" by (metis of_nat_less_iff of_nat_numeral of_nat_power)
    then have "(of_nat k :: rat) * eps < 2 ^ 33 * eps" unfolding eps_def by simp
    also have "\<dots> < 1" unfolding eps_def by simp
    finally show ?thesis .
  qed
  then have inv: "eps < 1 / of_nat k" using kr by (simp add: field_simps)
  have eps1: "eps < 1" unfolding eps_def by simp
  have eps0: "0 \<le> eps" unfolding eps_def by simp
  have r: "r = \<lfloor>z + 1 / 2\<rfloor>" by (simp add: r_def z_def Math_round_def)
  from t decomp have "X + 1 / 2 = of_int R + of_nat f / of_nat k" by simp
  then have zt: "z + 1 / 2 = of_int R + of_nat f / of_nat k + (z - X)"
    by linarith
  have frac0: "(0::rat) \<le> of_nat f / of_nat k" by simp
  have frac1: "(of_nat f :: rat) / of_nat k \<le> 1 - 1 / of_nat k"
  proof -
    have "f + 1 \<le> k" using f_lt by simp
    then have "(of_nat f :: rat) + 1 \<le> of_nat k" by (metis of_nat_1 of_nat_add of_nat_le_iff)
    then show ?thesis using kr by (simp add: field_simps)
  qed
  have RX: "round X = R"
  proof -
    have "\<lfloor>X + 1 / 2\<rfloor> = R"
      using frac0 frac1 kr unfolding t decomp by (intro floor_unique) (auto simp: field_simps)
    then show ?thesis by (simp add: round_def)
  qed
  have notie: "r = R" if "f \<noteq> 0"
  proof -
    have "1 \<le> f" using that by simp
    then have "(1::rat) \<le> of_nat f" by simp
    then have lo: "(1::rat) / of_nat k \<le> of_nat f / of_nat k" using kr by (simp add: divide_right_mono)
    have "\<lfloor>z + 1 / 2\<rfloor> = R"
    proof (rule floor_unique)
      show "of_int R \<le> z + 1 / 2" using zt lo inv err by linarith
      show "z + 1 / 2 < of_int R + 1" using zt frac1 inv err by linarith
    qed
    then show ?thesis using r by simp
  qed
  have any: "r = R \<or> r = R - 1"
  proof (cases "f = 0")
    case False then show ?thesis using notie by simp
  next
    case True
    then have zt': "z + 1 / 2 = of_int R + (z - X)" using zt by simp
    show ?thesis
    proof (cases "X \<le> z")
      case True
      have "\<lfloor>z + 1 / 2\<rfloor> = R"
      proof (rule floor_unique)
        show "of_int R \<le> z + 1 / 2" using zt' True by linarith
        show "z + 1 / 2 < of_int R + 1" using zt' err eps1 by linarith
      qed
      then show ?thesis using r by simp
    next
      case False
      have "\<lfloor>z + 1 / 2\<rfloor> = R - 1"
      proof (rule floor_unique)
        show "of_int (R - 1) \<le> z + 1 / 2" using zt' err eps1 by simp
        show "z + 1 / 2 < of_int (R - 1) + 1" using zt' False by simp
      qed
      then show ?thesis using r by simp
    qed
  qed
  show ?thesis using notie any RX by (simp add: f_def m_def k_def)
qed

lemma exponent_upper:
  assumes "0 < x"
  shows "x < 2 powi (exponent x + 1)"
proof -
  obtain p q where pq: "quotient_of x = (p, q)" by (cases "quotient_of x")
  have q: "0 < q" using pq by (rule quotient_of_denom_pos)
  have x: "x = of_int p / of_int q" using pq by (rule quotient_of_div)
  have p: "0 < p" using assms q x by (simp add: zero_less_divide_iff)
  define e where "e = bitlen p - bitlen q"
  have ex: "exponent x = (if 2 powi e \<le> x then e else e - 1)"
    by (simp add: exponent_def pq e_def Let_def)
  have bp: "of_int p < (2::rat) ^ nat (bitlen p)"
    using bitlen_bounds[OF p] by (metis of_int_less_iff of_int_numeral of_int_power)
  have bq: "(2::rat) ^ nat (bitlen q - 1) \<le> of_int q"
    using bitlen_bounds[OF q] by (metis of_int_le_iff of_int_numeral of_int_power)
  have b1: "1 \<le> bitlen q" using q bitlen_bounds[OF q] by (smt (verit) bitlen_eq_zero_iff bitlen_nonneg)
  have "of_int p / of_int q < (2::rat) ^ nat (bitlen p) / 2 ^ nat (bitlen q - 1)"
    using bp bq q p by (intro frac_less) auto
  also have "\<dots> = 2 powi (bitlen p) / 2 powi (bitlen q - 1)"
    using b1 bitlen_nonneg[of p] by (simp add: power_int_nonneg_exp)
  also have "\<dots> = 2 powi (e + 1)"
    unfolding e_def by (simp add: power_int_diff power_int_add)
  finally have "x < 2 powi (e + 1)" using x by simp
  then show ?thesis unfolding ex by (auto simp: not_le)
qed

section \<open>The completion rate of the fallback insights\<close>

lemma get_completionRate:
  "get_prop (getFallbackInsights tasks) ''completionRate'' =
     Some (JStr (toString (completionRate tasks) @ ascii ''%''))"
  by (simp add: getFallbackInsights_def obj_def ascii_def)

lemma toString_50_percent: "toString 50 @ ascii ''%'' = ascii ''50%''"
  by (simp add: toString_def ascii_def)

text \<open>
  C6, as the code has it. For a task set of \<open>n > 0\<close> tasks (\<open>n\<close> below \<open>2^32\<close>, as the
  length of a JavaScript array is) of which \<open>c\<close> are completed, the fallback insights
  report \<open>completionRate\<close> as the digits of \<open>Math.round((c / n) * 100)\<close> followed by
  \<open>%\<close>, the quotient and the product each rounded to double precision. That number is
  \<open>round(100 * c / n)\<close> whenever \<open>100 * c / n\<close> is not exactly halfway between two
  integers, and otherwise is \<open>round(100 * c / n)\<close> or one less. For two tasks with
  exactly one completed it is \<open>50%\<close>.
\<close>

theorem fallback_completionRate:
  assumes "tasks \<noteq> []" and "length tasks < 2 ^ 32"
  shows "get_prop (getFallbackInsights tasks) ''completionRate'' =
           Some (JStr (toString (completionRate tasks) @ ascii ''%'')) \<and>
         completionRate tasks =
           Math_round (js_mul (js_div (of_nat (length (filter (\<lambda>t. completed t = Some True) tasks)))
                                      (of_nat (length tasks))) 100) \<and>
         ((200 * length (filter (\<lambda>t. completed t = Some True) tasks) + length tasks)
             mod (2 * length tasks) \<noteq> 0 \<longrightarrow>
            completionRate tasks =
              round (100 * of_nat (length (filter (\<lambda>t. completed t = Some True) tasks)) /
                     of_nat (length tasks) :: rat)) \<and>
         (completionRate tasks =
              round (100 * of_nat (length (filter (\<lambda>t. completed t = Some True) tasks)) /
                     of_nat (length tasks) :: rat) \<or>
          completionRate tasks =
              round (100 * of_nat (length (filter (\<lambda>t. completed t = Some True) tasks)) /
                     of_nat (length tasks) :: rat) - 1) \<and>
         (length tasks = 2 \<and> length (filter (\<lambda>t. completed t = Some True) tasks) = 1 \<longrightarrow>
            get_prop (getFallbackInsights tasks) ''completionRate'' = Some (str ''50%''))"
proof -
  define c where "c = length (filter (\<lambda>t. completed t = Some True) tasks)"
  define n where "n = length tasks"
  have n: "0 < n" "n < 2 ^ 32" using assms by (simp_all add: n_def)
  have c: "c \<le> n" unfolding c_def n_def by simp
  have rate: "completionRate tasks = Math_round (js_mul (js_div (of_nat c) (of_nat n)) 100)"
    using n by (simp add: completionRate_def c_def n_def Let_def)
  note rr = rate_rounding[OF c n, folded rate]
  have fifty: "get_prop (getFallbackInsights tasks) ''completionRate'' = Some (str ''50%'')"
    if "n = 2" "c = 1"
  proof -
    have "(200 * c + n) mod (2 * n) \<noteq> 0" using that by simp
    with rr have "completionRate tasks = round (100 * of_nat c / of_nat n :: rat)" by blast
    also have "\<dots> = 50" using that by simp
    finally show ?thesis
      by (simp add: get_completionRate toString_50_percent str_def)
  qed
  show ?thesis
    using rr rate fifty get_completionRate unfolding c_def n_def by blast
qed

lemma toString_57_percent: "toString 57 @ ascii ''%'' = ascii ''57%''"
  by (simp add: toString_def ascii_def)

theorem fallback_completionRate_witness:
  "[bobs_task, bobs_done] \<noteq> [] \<and> length [bobs_task, bobs_done] < 2 ^ 32 \<and>
   length [bobs_task, bobs_done] = 2 \<and>
   length (filter (\<lambda>t. completed t = Some True) [bobs_task, bobs_done]) = 1 \<and>
   completionRate [bobs_task, bobs_done] = 50 \<and>
   get_prop (getFallbackInsights [bobs_task, bobs_done]) ''completionRate'' = Some (str ''50%'')"
proof -
  have a: "[bobs_task, bobs_done] \<noteq> []" by simp
  have b: "length [bobs_task, bobs_done] < 2 ^ 32" by simp
  have c: "length [bobs_task, bobs_done] = 2" by simp
  have d: "length (filter (\<lambda>t. completed t = Some True) [bobs_task, bobs_done]) = 1"
    by (simp add: sample_defs)
  from fallback_completionRate [OF a b] c d
  have e: "get_prop (getFallbackInsights [bobs_task, bobs_done]) ''completionRate'' =
             Some (str ''50%'')"
    by blast
  from a b c d e two_rate show ?thesis by blast
qed

text \<open>
  C6 as stated fails. Of forty tasks twenty-three are completed: \<open>100 * 23 / 40\<close> is 57.5
  and rounds to 58, also when computed in double precision in that order; the code divides
  first, and the double nearest to \<open>23 / 40\<close> times 100 is just below 57.5, so the fallback
  reports \<open>57%\<close>.
\<close>

theorem forty_tasks_rate:
  "forty_tasks = replicate 23 bobs_done @ replicate 17 bobs_task \<and>
   completed bobs_done = Some True \<and> completed bobs_task = Some False \<and>
   get_prop (getFallbackInsights forty_tasks) ''completionRate'' = Some (str ''57%'') \<and>
   round (100 * 23 / 40 :: rat) = 58 \<and>
   Math_round (js_div (js_mul 100 23) 40) = 58"
proof -
  have "round (100 * 23 / 40 :: rat) = 58" by (simp add: round_def)
  moreover have "Math_round (js_div (js_mul 100 23) 40) = 58" by code_simp
  moreover have "get_prop (getFallbackInsights forty_tasks) ''completionRate'' = Some (str ''57%'')"
    by (simp add: get_completionRate forty_rate toString_57_percent str_def)
  ultimately show ?thesis by (simp add: forty_tasks_def sample_defs)
qed

end
